theory Spec2Isabelle
  imports Main "HOL-Library.AList"
begin

section \<open>Python values\<close>

text \<open>
  A Python \<open>str\<close> is a sequence of Unicode code points and a \<open>bytes\<close> object a
  sequence of octets; both are lists of naturals here.  \<open>lit\<close> turns a literal of the
  program text into a \<open>str\<close>.
\<close>

type_synonym str = "nat list"
type_synonym bytes = "nat list"

definition lit :: "string \<Rightarrow> str" where
  "lit cs = map of_char cs"

text \<open>
  The exceptions the modelled code can raise.  \<open>RequestException\<close> is the one class
  \<open>simple_get\<close> catches; an exception raised by an evaluation of page text that is none
  of the named ones is \<open>OtherError\<close>.
\<close>

datatype exn = RequestException | KeyError | IndexError | AttributeError | TypeError
  | SyntaxError | NameError | UnicodeDecodeError | UnicodeEncodeError | OtherError

text \<open>
  The objects a literal display denotes.  A dict keeps its items in insertion order,
  one item per key.
\<close>

datatype pyval = PyNone | PyBool bool | PyInt int | PyStr str
  | PyList "pyval list" | PyTuple "pyval list" | PyDict "(pyval \<times> pyval) list"

section \<open>The classes of the program\<close>

text \<open>
  \<open>Anime.name\<close> of a catalog entry is whatever object the page's data holds under
  \<open>anime_title\<close>; on a performer page it is the stripped link text.
\<close>

record Anime =
  name :: pyval
  url :: str

text \<open>The back reference \<open>Character.seiyuu\<close> is kept as the owner's url.\<close>

record Character =
  seiyuu :: str
  name :: str
  role :: str
  url :: str
  anime :: "Anime list"

record AnimeList =
  username :: str
  url :: str
  anime :: "Anime list"
  anime_details :: "pyval list"
  is_valid :: bool

record Seiyuu =
  url :: str
  characters :: "Character list"

section \<open>Main.load\_char\_list: the result rows\<close>

text \<open>
  One row of the results frame: the grid row \<open>i\<close>, the text of the label \<open>c_name\<close>
  and the texts of the labels in \<open>a_frame\<close>, one per element of \<open>c.anime\<close> in grid
  order \<open>j\<close>.
\<close>

record result_row =
  grid_row :: nat
  c_name_text :: str
  a_name_texts :: "pyval list"

text \<open>
  The guard of the \<open>continue\<close>:
  \<open>self.anime_list != None and not any(item in [A.url for A in self.anime_list.anime]
     for item in [A.url for A in c.anime])\<close>.
\<close>

definition skip_character :: "AnimeList option \<Rightarrow> Character \<Rightarrow> bool" where
  "skip_character anime_list c =
     (case anime_list of
        None \<Rightarrow> False
      | Some al \<Rightarrow>
          \<not> list_ex (\<lambda>item. item \<in> set (map Anime.url (AnimeList.anime al)))
                (map Anime.url (Character.anime c)))"

text \<open>The loop \<open>for i in range(len(self.seiyuu.characters))\<close>, from index \<open>i\<close> on.\<close>

fun char_rows :: "AnimeList option \<Rightarrow> nat \<Rightarrow> Character list \<Rightarrow> result_row list" where
  "char_rows anime_list i [] = []"
| "char_rows anime_list i (c # cs) =
     (if skip_character anime_list c then char_rows anime_list (Suc i) cs
      else \<lparr>grid_row = i, c_name_text = Character.name c,
             a_name_texts = map Anime.name (Character.anime c)\<rparr>
           # char_rows anime_list (Suc i) cs)"

definition load_char_list :: "AnimeList option \<Rightarrow> Seiyuu \<Rightarrow> result_row list" where
  "load_char_list anime_list s = char_rows anime_list 0 (characters s)"

text \<open>What the loop draws for a character it does not skip.\<close>

definition row_of :: "nat \<times> Character \<Rightarrow> result_row" where
  "row_of ic = \<lparr>grid_row = fst ic, c_name_text = Character.name (snd ic),
                 a_name_texts = map Anime.name (Character.anime (snd ic))\<rparr>"

text \<open>The test of the specification: the two url sets intersect.\<close>

definition urls_intersect :: "AnimeList \<Rightarrow> Character \<Rightarrow> bool" where
  "urls_intersect al c \<longleftrightarrow>
     set (map Anime.url (Character.anime c)) \<inter> set (map Anime.url (AnimeList.anime al)) \<noteq> {}"

section \<open>Sequencing and the str methods the program calls\<close>

text \<open>An exception ends the computation; a result is handed to the rest.\<close>

definition bnd :: "exn + 'a \<Rightarrow> ('a \<Rightarrow> exn + 'b) \<Rightarrow> exn + 'b" where
  "bnd m f = (case m of Inl e \<Rightarrow> Inl e | Inr x \<Rightarrow> f x)"

text \<open>\<open>xs[i]\<close> for an index \<open>i \<ge> 0\<close>.\<close>

definition subscript :: "'a list \<Rightarrow> nat \<Rightarrow> exn + 'a" where
  "subscript xs i = (if i < length xs then Inr (xs ! i) else Inl IndexError)"

text \<open>\<open>s.startswith(sub)\<close>.\<close>

fun startswith :: "'a list \<Rightarrow> 'a list \<Rightarrow> bool" where
  "startswith s [] = True"
| "startswith [] (x # xs) = False"
| "startswith (c # cs) (x # xs) = (c = x \<and> startswith cs xs)"

text \<open>
  \<open>s.find(sub, start)\<close> for \<open>start \<ge> 0\<close>: the lowest index \<open>\<ge> start\<close> at which
  \<open>sub\<close> occurs, or \<open>-1\<close>.  \<open>find_at sub s k\<close> scans \<open>s\<close>, whose first element has
  index \<open>k\<close>.
\<close>

fun find_at :: "'a list \<Rightarrow> 'a list \<Rightarrow> nat \<Rightarrow> int" where
  "find_at sub [] k = (if sub = [] then int k else - 1)"
| "find_at sub (c # cs) k =
     (if startswith (c # cs) sub then int k else find_at sub cs (Suc k))"

definition py_find :: "'a list \<Rightarrow> 'a list \<Rightarrow> nat \<Rightarrow> int" where
  "py_find s sub start = (if length s < start then - 1 else find_at sub (drop start s) start)"

text \<open>\<open>s[i:j]\<close>: a negative index counts from the end, and both are clipped.\<close>

definition slice_index :: "nat \<Rightarrow> int \<Rightarrow> nat" where
  "slice_index n i = (if i < 0 then nat (int n + i) else min n (nat i))"

definition py_slice :: "'a list \<Rightarrow> int \<Rightarrow> int \<Rightarrow> 'a list" where
  "py_slice s i j =
     (let lo = slice_index (length s) i; hi = slice_index (length s) j
      in take (hi - lo) (drop lo s))"

text \<open>\<open>s.replace(old, new)\<close>: every occurrence, left to right, none overlapping.\<close>

function py_replace :: "'a list \<Rightarrow> 'a list \<Rightarrow> 'a list \<Rightarrow> 'a list" where
  "py_replace [] old new = (if old = [] then new else [])"
| "py_replace (c # cs) old new =
     (if old = [] then new @ c # py_replace cs old new
      else if startswith (c # cs) old
        then new @ py_replace (drop (length old) (c # cs)) old new
      else c # py_replace cs old new)"
  by pat_completeness auto
termination
  by (relation "measure (\<lambda>(s, old, new). length s)") (auto simp: neq_Nil_conv)

text \<open>
  \<open>str.isspace\<close> of one character, \<open>s.strip()\<close>, and \<open>s.lower()\<close> on the code points
  below 256 (a header of a response holds no other).
\<close>

definition isspace :: "nat \<Rightarrow> bool" where
  "isspace c \<longleftrightarrow>
     (9 \<le> c \<and> c \<le> 13) \<or> (28 \<le> c \<and> c \<le> 32) \<or> c = 0x85 \<or> c = 0xA0 \<or> c = 0x1680
     \<or> (0x2000 \<le> c \<and> c \<le> 0x200A) \<or> c = 0x2028 \<or> c = 0x2029 \<or> c = 0x202F
     \<or> c = 0x205F \<or> c = 0x3000"

definition strip :: "str \<Rightarrow> str" where
  "strip s = rev (dropWhile isspace (rev (dropWhile isspace s)))"

definition lower_char :: "nat \<Rightarrow> nat" where
  "lower_char c =
     (if (0x41 \<le> c \<and> c \<le> 0x5A) \<or> (0xC0 \<le> c \<and> c \<le> 0xDE \<and> c \<noteq> 0xD7) then c + 32 else c)"

definition lower :: "str \<Rightarrow> str" where
  "lower s = map lower_char s"

section \<open>The fetcher\<close>

text \<open>
  The call \<open>requests.get(url, stream=True)\<close> as the program writes it: its url and its
  keyword arguments.  \<open>call_headers\<close> is the \<open>headers=\<close> argument, \<open>None\<close> when the call
  passes none.
\<close>

record get_call =
  call_url :: str
  call_headers :: "(str \<times> str) list option"
  call_stream :: bool

text \<open>
  What the library answers: the header fields under their lower-case names (the
  library's dict compares names without case) and the body, whose read can fail.
\<close>

record response =
  resp_headers :: "(str \<times> str) list"
  resp_content :: "exn + bytes"

text \<open>
  \<open>requests.utils.default_headers()\<close> builds a fresh dict on each call; \<open>ver\<close> is the
  version of the installed library and \<open>enc\<close> the encodings it accepts.
\<close>

definition default_user_agent :: "str \<Rightarrow> str" where
  "default_user_agent ver = lit ''python-requests/'' @ ver"

definition default_headers :: "str \<Rightarrow> str \<Rightarrow> (str \<times> str) list" where
  "default_headers ver enc =
     [(lit ''User-Agent'', default_user_agent ver), (lit ''Accept-Encoding'', enc),
      (lit ''Accept'', lit ''*/*''), (lit ''Connection'', lit ''keep-alive'')]"

text \<open>The module-level \<open>headers\<close>: the fresh dict, updated.\<close>

definition custom_user_agent :: str where
  "custom_user_agent =
     lit ''Mozilla/5.0 (X11; Ubuntu; Linux x86_64; rv:52.0) Gecko/20100101 Firefox/52.0''"

definition headers :: "str \<Rightarrow> str \<Rightarrow> (str \<times> str) list" where
  "headers ver enc = AList.update (lit ''User-Agent'') custom_user_agent (default_headers ver enc)"

text \<open>
  The header fields the library sends for a call: the defaults of its session, a fresh
  \<open>default_headers()\<close>, overridden by the call's \<open>headers=\<close> argument.
\<close>

definition sent_headers :: "str \<Rightarrow> str \<Rightarrow> get_call \<Rightarrow> (str \<times> str) list" where
  "sent_headers ver enc call =
     (case call_headers call of
        None \<Rightarrow> default_headers ver enc
      | Some h \<Rightarrow> AList.updates (map fst h) (map snd h) (default_headers ver enc))"

definition simple_get_call :: "str \<Rightarrow> get_call" where
  "simple_get_call u = \<lparr>call_url = u, call_headers = None, call_stream = True\<rparr>"

text \<open>
  \<open>is_good_response\<close>: the subscript \<open>resp.headers['Content-Type']\<close> raises
  \<open>KeyError\<close> when the response has no such field; \<open>content_type is not None\<close> holds of
  every str.
\<close>

definition is_good_response :: "response \<Rightarrow> exn + bool" where
  "is_good_response resp =
     (case map_of (resp_headers resp) (lit ''content-type'') of
        None \<Rightarrow> Inl KeyError
      | Some h \<Rightarrow>
          (let content_type = lower h
           in Inr (True \<and> - 1 < py_find content_type (lit ''html'') 0)))"

text \<open>The \<open>except RequestException\<close> clause: that exception becomes \<open>None\<close>, any other passes.\<close>

definition except_RequestException :: "exn + 'a option \<Rightarrow> exn + 'a option" where
  "except_RequestException m =
     (case m of Inl e \<Rightarrow> (if e = RequestException then Inr None else Inl e) | Inr x \<Rightarrow> Inr x)"

text \<open>\<open>simple_get\<close>, over the network \<open>net\<close> that answers a call or raises.\<close>

definition simple_get :: "(get_call \<Rightarrow> exn + response) \<Rightarrow> str \<Rightarrow> exn + bytes option" where
  "simple_get net u =
     except_RequestException
       (bnd (net (simple_get_call u)) (\<lambda>resp.
        bnd (is_good_response resp) (\<lambda>good.
          if good then bnd (resp_content resp) (\<lambda>b. Inr (Some b)) else Inr None)))"

section \<open>The parse tree of a page\<close>

text \<open>
  The tree BeautifulSoup builds: a tag with its name, its attributes and its contents,
  or a string.  The soup itself is a tag.
\<close>

datatype node = Tag str "(str \<times> str) list" "node list" | NavigableString str

fun descendants :: "node \<Rightarrow> node list" where
  "descendants (NavigableString s) = []"
| "descendants (Tag nm ats cs) = concat (map (\<lambda>c. c # descendants c) cs)"

fun is_tag :: "str \<Rightarrow> node \<Rightarrow> bool" where
  "is_tag nm (Tag nm' ats cs) = (nm' = nm)"
| "is_tag nm (NavigableString s) = False"

text \<open>\<open>tag.find_all(name)\<close> and \<open>tag.find(name)\<close>, in document order.\<close>

definition find_all :: "str \<Rightarrow> node \<Rightarrow> node list" where
  "find_all nm t = filter (is_tag nm) (descendants t)"

definition find_one :: "str \<Rightarrow> node \<Rightarrow> node option" where
  "find_one nm t = (case find_all nm t of [] \<Rightarrow> None | x # xs \<Rightarrow> Some x)"

text \<open>\<open>tag.string\<close>: the string of a tag with exactly one child, through single children.\<close>

fun node_string :: "node \<Rightarrow> str option" where
  "node_string (NavigableString s) = Some s"
| "node_string (Tag nm ats [c]) = node_string c"
| "node_string (Tag nm ats cs) = None"

fun attrs :: "node \<Rightarrow> (str \<times> str) list" where
  "attrs (Tag nm ats cs) = ats"
| "attrs (NavigableString s) = []"

text \<open>An attribute or method of the result of \<open>find\<close>, which may be \<open>None\<close>.\<close>

definition of_found :: "'a option \<Rightarrow> exn + 'a" where
  "of_found x = (case x of None \<Rightarrow> Inl AttributeError | Some t \<Rightarrow> Inr t)"

definition attrs_subscript :: "node \<Rightarrow> str \<Rightarrow> exn + str" where
  "attrs_subscript t k = (case map_of (attrs t) k of None \<Rightarrow> Inl KeyError | Some v \<Rightarrow> Inr v)"

text \<open>
  \<open>BeautifulSoup(markup, 'html.parser')\<close>: the tree builder \<open>parser\<close> on the bytes of a
  page; \<open>None\<close> as markup raises \<open>TypeError\<close>.
\<close>

definition BeautifulSoup :: "(bytes \<Rightarrow> exn + node) \<Rightarrow> bytes option \<Rightarrow> exn + node" where
  "BeautifulSoup parser markup = (case markup of None \<Rightarrow> Inl TypeError | Some b \<Rightarrow> parser b)"

section \<open>Seiyuu.load\_seiyuu\<close>

text \<open>
  \<open>row.find_all('td')[k].find(nm)\<close>, then an attribute of the result: the subscript
  raises on a short row and the attribute access on \<open>None\<close>.
\<close>

definition cell_find :: "node \<Rightarrow> nat \<Rightarrow> str \<Rightarrow> exn + node" where
  "cell_find row k nm =
     bnd (subscript (find_all (lit ''td'') row) k) (\<lambda>td. of_found (find_one nm td))"

text \<open>\<open>tag.string.strip()\<close> and \<open>tag.attrs['href']\<close>.\<close>

definition string_strip :: "node \<Rightarrow> exn + str" where
  "string_strip t = bnd (of_found (node_string t)) (\<lambda>s. Inr (strip s))"

definition href :: "node \<Rightarrow> exn + str" where
  "href t = attrs_subscript t (lit ''href'')"

text \<open>The five assignments at the head of the loop body, in their order.\<close>

definition row_fields :: "node \<Rightarrow> exn + (str \<times> str \<times> str \<times> str \<times> str)" where
  "row_fields row =
     bnd (bnd (cell_find row 1 (lit ''a'')) string_strip) (\<lambda>a_name.
     bnd (bnd (cell_find row 1 (lit ''a'')) href) (\<lambda>a_url.
     bnd (bnd (cell_find row 2 (lit ''a'')) string_strip) (\<lambda>c_name.
     bnd (bnd (cell_find row 2 (lit ''div'')) string_strip) (\<lambda>c_role.
     bnd (bnd (cell_find row 2 (lit ''a'')) href) (\<lambda>c_url.
       Inr (a_name, a_url, c_name, c_role, c_url))))))"

text \<open>
  The \<open>else\<close> branch: the first character with the url gets the anime unless one of its
  anime has that url already; then the loop breaks.
\<close>

fun add_anime :: "Character list \<Rightarrow> str \<Rightarrow> Anime \<Rightarrow> Character list" where
  "add_anime [] c_url a = []"
| "add_anime (c # cs) c_url a =
     (if Character.url c = c_url
      then (if Anime.url a \<notin> set (map Anime.url (Character.anime c))
            then c\<lparr>Character.anime := Character.anime c @ [a]\<rparr> # cs
            else c # cs)
      else c # add_anime cs c_url a)"

text \<open>The \<open>if\<close> of the loop body, on the characters so far; \<open>self_url\<close> identifies \<open>self\<close>.\<close>

definition link_row ::
  "str \<Rightarrow> Character list \<Rightarrow> str \<times> str \<times> str \<times> str \<times> str \<Rightarrow> Character list" where
  "link_row self_url cs f =
     (case f of (a_name, a_url, c_name, c_role, c_url) \<Rightarrow>
        if c_url \<notin> set (map Character.url cs)
        then cs @ [\<lparr>seiyuu = self_url, name = c_name, role = c_role, url = c_url,
                    anime = [\<lparr>Anime.name = PyStr a_name, url = a_url\<rparr>]\<rparr>]
        else add_anime cs c_url \<lparr>Anime.name = PyStr a_name, url = a_url\<rparr>)"

text \<open>
  The values \<open>self.characters\<close> takes during one pass of the body, one per
  \<open>append\<close>: a new character is appended with no anime, and then gets its first.
\<close>

definition link_row_points ::
  "str \<Rightarrow> Character list \<Rightarrow> str \<times> str \<times> str \<times> str \<times> str \<Rightarrow> Character list list" where
  "link_row_points self_url cs f =
     (case f of (a_name, a_url, c_name, c_role, c_url) \<Rightarrow>
        if c_url \<notin> set (map Character.url cs)
        then [cs @ [\<lparr>seiyuu = self_url, name = c_name, role = c_role, url = c_url, anime = []\<rparr>],
              cs @ [\<lparr>seiyuu = self_url, name = c_name, role = c_role, url = c_url,
                     anime = [\<lparr>Anime.name = PyStr a_name, url = a_url\<rparr>]\<rparr>]]
        else [add_anime cs c_url \<lparr>Anime.name = PyStr a_name, url = a_url\<rparr>])"

text \<open>The loop \<open>for row in rows\<close>; a row that cannot be read raises.\<close>

fun load_rows :: "str \<Rightarrow> Character list \<Rightarrow> node list \<Rightarrow> exn + Character list" where
  "load_rows self_url cs [] = Inr cs"
| "load_rows self_url cs (row # rows) =
     (case row_fields row of
        Inl e \<Rightarrow> Inl e
      | Inr f \<Rightarrow> load_rows self_url (link_row self_url cs f) rows)"

text \<open>Every value \<open>self.characters\<close> takes while the loop runs, the first included.\<close>

fun load_points :: "str \<Rightarrow> Character list \<Rightarrow> node list \<Rightarrow> Character list list" where
  "load_points self_url cs [] = [cs]"
| "load_points self_url cs (row # rows) =
     (case row_fields row of
        Inl e \<Rightarrow> [cs]
      | Inr f \<Rightarrow> cs # link_row_points self_url cs f
                 @ load_points self_url (link_row self_url cs f) rows)"

definition performer_rows :: "node \<Rightarrow> exn + node list" where
  "performer_rows soup =
     bnd (subscript (find_all (lit ''table'') soup) 1) (\<lambda>t. Inr (find_all (lit ''tr'') t))"

definition load_seiyuu ::
  "(get_call \<Rightarrow> exn + response) \<Rightarrow> (bytes \<Rightarrow> exn + node) \<Rightarrow> Seiyuu \<Rightarrow> exn + Seiyuu" where
  "load_seiyuu net parser self =
     bnd (simple_get net (Seiyuu.url self)) (\<lambda>page.
     bnd (BeautifulSoup parser page) (\<lambda>soup.
     bnd (performer_rows soup) (\<lambda>rows.
     bnd (load_rows (Seiyuu.url self) (characters self) rows) (\<lambda>cs.
       Inr (self\<lparr>characters := cs\<rparr>)))))"

text \<open>\<open>Seiyuu(url)\<close>.\<close>

definition Seiyuu_init ::
  "(get_call \<Rightarrow> exn + response) \<Rightarrow> (bytes \<Rightarrow> exn + node) \<Rightarrow> str \<Rightarrow> exn + Seiyuu" where
  "Seiyuu_init net parser u = load_seiyuu net parser \<lparr>url = u, characters = []\<rparr>"

section \<open>search\_seiyuu\<close>

text \<open>
  \<open>parse.quote\<close>: the UTF-8 bytes of the term, each kept if it is a letter, a digit,
  one of \<open>_.-~\<close> or \<open>/\<close>, and written \<open>%XX\<close> otherwise.
\<close>

definition encode_char :: "nat \<Rightarrow> exn + bytes" where
  "encode_char c =
     (if c < 0x80 then Inr [c]
      else if c < 0x800 then Inr [0xC0 + c div 64, 0x80 + c mod 64]
      else if 0xD800 \<le> c \<and> c \<le> 0xDFFF then Inl UnicodeEncodeError
      else if c < 0x10000 then Inr [0xE0 + c div 4096, 0x80 + c div 64 mod 64, 0x80 + c mod 64]
      else if c < 0x110000
        then Inr [0xF0 + c div 262144, 0x80 + c div 4096 mod 64, 0x80 + c div 64 mod 64,
                  0x80 + c mod 64]
      else Inl UnicodeEncodeError)"

fun encode_utf8 :: "str \<Rightarrow> exn + bytes" where
  "encode_utf8 [] = Inr []"
| "encode_utf8 (c # cs) =
     bnd (encode_char c) (\<lambda>b. bnd (encode_utf8 cs) (\<lambda>bs. Inr (b @ bs)))"

definition always_safe :: "nat \<Rightarrow> bool" where
  "always_safe b \<longleftrightarrow>
     (0x41 \<le> b \<and> b \<le> 0x5A) \<or> (0x61 \<le> b \<and> b \<le> 0x7A) \<or> (0x30 \<le> b \<and> b \<le> 0x39)
     \<or> b = 0x5F \<or> b = 0x2E \<or> b = 0x2D \<or> b = 0x7E"

definition hex_digit :: "nat \<Rightarrow> nat" where
  "hex_digit d = (if d < 10 then 0x30 + d else 0x37 + d)"

definition quote_byte :: "nat \<Rightarrow> str" where
  "quote_byte b =
     (if always_safe b \<or> b = 0x2F then [b] else [0x25, hex_digit (b div 16), hex_digit (b mod 16)])"

definition quote :: "str \<Rightarrow> exn + str" where
  "quote s = bnd (encode_utf8 s) (\<lambda>bs. Inr (concat (map quote_byte bs)))"

definition search_url :: "str \<Rightarrow> str" where
  "search_url q = lit ''https://myanimelist.net/people.php?q='' @ q @ lit ''&cat=person''"

text \<open>The title of a page of results, with its final newline.\<close>

definition search_title :: str where
  "search_title = lit ''Search People - MyAnimeList.net'' @ [10]"

text \<open>
  The dict \<open>seiyuu\<close> (here \<open>seiyuu_d\<close>): its items in insertion order, one per key; a key is the
  \<open>string\<close> of a tag, which can be \<open>None\<close>.  In the assignment of the loop the right-hand
  side is evaluated before the key.
\<close>

fun search_rows ::
  "(str option \<times> str) list \<Rightarrow> node list \<Rightarrow> exn + (str option \<times> str) list" where
  "search_rows seiyuu_d [] = Inr seiyuu_d"
| "search_rows seiyuu_d (row # rows) =
     bnd (bnd (subscript (find_all (lit ''a'') row) 0) href) (\<lambda>h.
     bnd (subscript (find_all (lit ''a'') row) 1) (\<lambda>t.
       search_rows (AList.update (node_string t) (lit ''https://myanimelist.net'' @ h) seiyuu_d)
         rows))"

text \<open>The \<open>return\<close> under the test of the title: one item, the key evaluated first.\<close>

definition single_profile :: "node \<Rightarrow> exn + (str option \<times> str) list" where
  "single_profile soup =
     bnd (of_found (find_one (lit ''h1'') soup)) (\<lambda>h1.
     bnd (of_found (find_one (lit ''table'') soup)) (\<lambda>t.
     bnd (subscript (find_all (lit ''td'') t) 1) (\<lambda>td.
     bnd (subscript (find_all (lit ''div'') td) 2) (\<lambda>d.
     bnd (of_found (find_one (lit ''a'') d)) (\<lambda>a.
     bnd (href a) (\<lambda>h. Inr [(node_string h1, h)]))))))"

text \<open>A tag is true whatever it holds, so \<open>not rows[0].find('a')\<close> tests for \<open>None\<close>.\<close>

definition search_seiyuu ::
  "(get_call \<Rightarrow> exn + response) \<Rightarrow> (bytes \<Rightarrow> exn + node) \<Rightarrow> str
    \<Rightarrow> exn + (str option \<times> str) list" where
  "search_seiyuu net parser search =
     bnd (quote search) (\<lambda>q.
     bnd (simple_get net (search_url q)) (\<lambda>page.
     bnd (BeautifulSoup parser page) (\<lambda>soup.
     bnd (of_found (find_one (lit ''title'') soup)) (\<lambda>title.
       if node_string title \<noteq> Some search_title then single_profile soup
       else
         bnd (of_found (find_one (lit ''table'') soup)) (\<lambda>t.
           let rows = find_all (lit ''tr'') t
           in if length rows = 1 \<and> find_one (lit ''a'') (rows ! 0) = None then Inr []
              else search_rows [] rows)))))"

section \<open>AnimeList.load\_anime\_list\<close>

text \<open>
  \<open>bytes.decode('utf-8')\<close>: the strict decoder, which refuses a stray or missing
  continuation byte, an overlong form, a surrogate and a value past U+10FFFF.
\<close>

definition continuation :: "nat \<Rightarrow> bool" where
  "continuation b \<longleftrightarrow> 0x80 \<le> b \<and> b \<le> 0xBF"

fun decode_utf8 :: "bytes \<Rightarrow> exn + str" where
  "decode_utf8 [] = Inr []"
| "decode_utf8 [b] = (if b < 0x80 then Inr [b] else Inl UnicodeDecodeError)"
| "decode_utf8 [b, b1] =
     (if b < 0x80 then bnd (decode_utf8 [b1]) (\<lambda>r. Inr (b # r))
      else if 0xC2 \<le> b \<and> b \<le> 0xDF \<and> continuation b1
        then Inr [(b - 0xC0) * 64 + (b1 - 0x80)]
      else Inl UnicodeDecodeError)"
| "decode_utf8 [b, b1, b2] =
     (if b < 0x80 then bnd (decode_utf8 [b1, b2]) (\<lambda>r. Inr (b # r))
      else if 0xC2 \<le> b \<and> b \<le> 0xDF \<and> continuation b1
        then bnd (decode_utf8 [b2]) (\<lambda>r. Inr (((b - 0xC0) * 64 + (b1 - 0x80)) # r))
      else if 0xE0 \<le> b \<and> b \<le> 0xEF \<and> continuation b1 \<and> continuation b2
              \<and> (b = 0xE0 \<longrightarrow> 0xA0 \<le> b1) \<and> (b = 0xED \<longrightarrow> b1 \<le> 0x9F)
        then Inr [(b - 0xE0) * 4096 + (b1 - 0x80) * 64 + (b2 - 0x80)]
      else Inl UnicodeDecodeError)"
| "decode_utf8 (b # b1 # b2 # b3 # bs) =
     (if b < 0x80 then bnd (decode_utf8 (b1 # b2 # b3 # bs)) (\<lambda>r. Inr (b # r))
      else if 0xC2 \<le> b \<and> b \<le> 0xDF \<and> continuation b1
        then bnd (decode_utf8 (b2 # b3 # bs)) (\<lambda>r. Inr (((b - 0xC0) * 64 + (b1 - 0x80)) # r))
      else if 0xE0 \<le> b \<and> b \<le> 0xEF \<and> continuation b1 \<and> continuation b2
              \<and> (b = 0xE0 \<longrightarrow> 0xA0 \<le> b1) \<and> (b = 0xED \<longrightarrow> b1 \<le> 0x9F)
        then bnd (decode_utf8 (b3 # bs))
               (\<lambda>r. Inr (((b - 0xE0) * 4096 + (b1 - 0x80) * 64 + (b2 - 0x80)) # r))
      else if 0xF0 \<le> b \<and> b \<le> 0xF4 \<and> continuation b1 \<and> continuation b2 \<and> continuation b3
              \<and> (b = 0xF0 \<longrightarrow> 0x90 \<le> b1) \<and> (b = 0xF4 \<longrightarrow> b1 \<le> 0x8F)
        then bnd (decode_utf8 bs)
               (\<lambda>r. Inr (((b - 0xF0) * 262144 + (b1 - 0x80) * 4096 + (b2 - 0x80) * 64
                          + (b3 - 0x80)) # r))
      else Inl UnicodeDecodeError)"

text \<open>\<open>list(v)\<close>: the elements of a sequence, the keys of a dict, the characters of a str.\<close>

fun py_list :: "pyval \<Rightarrow> exn + pyval list" where
  "py_list (PyTuple xs) = Inr xs"
| "py_list (PyList xs) = Inr xs"
| "py_list (PyDict kvs) = Inr (map fst kvs)"
| "py_list (PyStr s) = Inr (map (\<lambda>c. PyStr [c]) s)"
| "py_list v = Inl TypeError"

text \<open>\<open>A[key]\<close> for a str \<open>key\<close>: only a dict takes one.\<close>

fun getitem :: "pyval \<Rightarrow> str \<Rightarrow> exn + pyval" where
  "getitem (PyDict kvs) k =
     (case map_of kvs (PyStr k) of None \<Rightarrow> Inl KeyError | Some v \<Rightarrow> Inr v)"
| "getitem v k = Inl TypeError"

text \<open>\<open>'https://myanimelist.net' + x\<close>: only a str can follow a str.\<close>

fun str_add :: "str \<Rightarrow> pyval \<Rightarrow> exn + str" where
  "str_add s (PyStr t) = Inr (s @ t)"
| "str_add s v = Inl TypeError"

text \<open>
  \<open>Anime(A['anime_title'], 'https://myanimelist.net' + A['anime_url'])\<close>, and the list
  comprehension over \<open>self.anime_details\<close>.
\<close>

definition anime_of :: "pyval \<Rightarrow> exn + Anime" where
  "anime_of A =
     bnd (getitem A (lit ''anime_title'')) (\<lambda>t.
     bnd (getitem A (lit ''anime_url'')) (\<lambda>au.
     bnd (str_add (lit ''https://myanimelist.net'') au) (\<lambda>u.
       Inr \<lparr>Anime.name = t, url = u\<rparr>)))"

fun anime_list_of :: "pyval list \<Rightarrow> exn + Anime list" where
  "anime_list_of [] = Inr []"
| "anime_list_of (A # As) =
     bnd (anime_of A) (\<lambda>x. bnd (anime_list_of As) (\<lambda>xs. Inr (x # xs)))"

text \<open>The list \<open>r\<close> of the replacements; the last pattern is one backslash.\<close>

definition r :: "str list" where
  "r = [lit ''&quot;'', [34],
        lit ''null'', lit ''None'',
        lit ''true'', lit ''True'',
        lit ''false'', lit ''False'',
        [92], []]"

text \<open>
  From the decoded page to the text handed to \<open>eval\<close>: the slice after the marker, the
  braces, and the loop of replacements over \<open>range(int(len(r)/2))\<close>.
\<close>

definition data_items :: "str \<Rightarrow> str" where
  "data_items mylist =
     (let i = py_find mylist (lit ''data-items'') 0 + 14
      in py_slice mylist i (py_find mylist (lit '']'') (nat i) - 1))"

definition python_syntax :: "str \<Rightarrow> str" where
  "python_syntax mylist =
     foldl (\<lambda>m i. py_replace m (r ! (i * 2)) (r ! (i * 2 + 1)))
       (lit ''{'' @ mylist @ lit ''}'') [0..<length r div 2]"

text \<open>
  \<open>load_anime_list\<close>, over the network and over \<open>ev\<close>, the interpreter's \<open>eval\<close> on
  the cleaned text.  Without a page the object is returned as it is.
\<close>

definition load_anime_list ::
  "(get_call \<Rightarrow> exn + response) \<Rightarrow> (str \<Rightarrow> exn + pyval) \<Rightarrow> AnimeList \<Rightarrow> exn + AnimeList" where
  "load_anime_list net ev self =
     bnd (simple_get net (AnimeList.url self)) (\<lambda>fetched.
       case fetched of
         None \<Rightarrow> Inr self
       | Some b \<Rightarrow>
           bnd (decode_utf8 b) (\<lambda>mylist.
           bnd (ev (python_syntax (data_items mylist))) (\<lambda>v.
           bnd (py_list v) (\<lambda>details.
           bnd (anime_list_of details) (\<lambda>as.
             Inr (self\<lparr>anime_details := details, AnimeList.anime := as, is_valid := True\<rparr>))))))"

text \<open>\<open>AnimeList(username)\<close>.\<close>

definition AnimeList_init ::
  "(get_call \<Rightarrow> exn + response) \<Rightarrow> (str \<Rightarrow> exn + pyval) \<Rightarrow> str \<Rightarrow> exn + AnimeList" where
  "AnimeList_init net ev user =
     load_anime_list net ev
       \<lparr>username = user, url = lit ''https://myanimelist.net/animelist/'' @ user,
        anime = [], anime_details = [], is_valid = False\<rparr>"

section \<open>The interpreter's eval on literal displays\<close>

text \<open>
  \<open>eval\<close> belongs to the interpreter, not to the program, and \<open>load_anime_list\<close> takes
  it as a parameter.  For pages written out in full, \<open>py_eval\<close> gives its result on a
  fragment of the expression syntax: displays of dicts, lists and tuples over string
  literals without backslash, decimal numbers and \<open>None\<close>, \<open>True\<close>, \<open>False\<close>, with
  spaces between tokens.  \<open>Some\<close> is the interpreter's result; \<open>None\<close> says that the
  text lies outside the fragment, and nothing about the interpreter.
\<close>

datatype token = LBRACE | RBRACE | LBRACK | RBRACK | LPAR | RPAR | COMMA | COLON
  | STRING str | NUMBER nat | NAME str

text \<open>
  \<open>Invalid\<close>: a \<open>SyntaxError\<close> for certain, raised by the tokenizer whatever follows
  (a character of no token, a string literal that does not end on its line, a decimal
  number with a leading zero).  \<open>Unmodelled\<close>: a character outside the fragment.
\<close>

datatype lexed = Tokens "token list" | Invalid | Unmodelled

datatype lex_state = Start | InString nat str | InNumber str | InName str

definition punct :: "nat \<Rightarrow> token option" where
  "punct c =
     (if c = 0x7B then Some LBRACE else if c = 0x7D then Some RBRACE
      else if c = 0x5B then Some LBRACK else if c = 0x5D then Some RBRACK
      else if c = 0x28 then Some LPAR else if c = 0x29 then Some RPAR
      else if c = 0x2C then Some COMMA else if c = 0x3A then Some COLON else None)"

definition no_token_char :: "nat \<Rightarrow> bool" where
  "no_token_char c \<longleftrightarrow> c = 0x24 \<or> c = 0x3F \<or> c = 0x60"

definition digit :: "nat \<Rightarrow> bool" where
  "digit c \<longleftrightarrow> 0x30 \<le> c \<and> c \<le> 0x39"

definition name_start :: "nat \<Rightarrow> bool" where
  "name_start c \<longleftrightarrow> (0x41 \<le> c \<and> c \<le> 0x5A) \<or> (0x61 \<le> c \<and> c \<le> 0x7A) \<or> c = 0x5F"

definition cons_token :: "token \<Rightarrow> lexed \<Rightarrow> lexed" where
  "cons_token t l =
     (case l of Tokens ts \<Rightarrow> Tokens (t # ts) | Invalid \<Rightarrow> Invalid | Unmodelled \<Rightarrow> Unmodelled)"

text \<open>The digits of a number, last first.\<close>

definition number_token :: "str \<Rightarrow> lexed \<Rightarrow> lexed" where
  "number_token acc l =
     (if 1 < length acc \<and> last acc = 0x30 \<and> (\<exists>d \<in> set acc. d \<noteq> 0x30) then Invalid
      else cons_token (NUMBER (foldr (\<lambda>d n. 10 * n + (d - 0x30)) acc 0)) l)"

fun lex :: "lex_state \<Rightarrow> str \<Rightarrow> lexed" where
  "lex Start [] = Tokens []"
| "lex (InString q acc) [] = Invalid"
| "lex (InNumber acc) [] = number_token acc (Tokens [])"
| "lex (InName acc) [] = Tokens [NAME (rev acc)]"
| "lex Start (c # cs) =
     (if c = 0x20 then lex Start cs
      else if c = 0x22 \<or> c = 0x27 then lex (InString c []) cs
      else if digit c then lex (InNumber [c]) cs
      else if name_start c then lex (InName [c]) cs
      else if no_token_char c then Invalid
      else (case punct c of Some t \<Rightarrow> cons_token t (lex Start cs) | None \<Rightarrow> Unmodelled))"
| "lex (InString q acc) (c # cs) =
     (if c = q then
        (if acc = [] \<and> take 1 cs = [q] then Unmodelled
         else cons_token (STRING (rev acc)) (lex Start cs))
      else if c = 0x0A \<or> c = 0x0D then Invalid
      else if c = 0x5C then Unmodelled
      else lex (InString q (c # acc)) cs)"
| "lex (InNumber acc) (c # cs) =
     (if digit c then lex (InNumber (c # acc)) cs
      else if c = 0x20 then number_token acc (lex Start cs)
      else if no_token_char c then Invalid
      else (case punct c of
              Some t \<Rightarrow> number_token acc (cons_token t (lex Start cs))
            | None \<Rightarrow> Unmodelled))"
| "lex (InName acc) (c # cs) =
     (if name_start c \<or> digit c then lex (InName (c # acc)) cs
      else if c = 0x20 then cons_token (NAME (rev acc)) (lex Start cs)
      else if no_token_char c then Invalid
      else (case punct c of
              Some t \<Rightarrow> cons_token (NAME (rev acc)) (cons_token t (lex Start cs))
            | None \<Rightarrow> Unmodelled))"

text \<open>The expressions of the fragment.\<close>

datatype expr = ENone | EBool bool | ENum nat | EStr str
  | EList "expr list" | ETuple "expr list" | EDict "(expr \<times> expr) list"

text \<open>
  A parser by recursive descent.  The first argument bounds the depth of the calls (the
  list of the tokens does); the second is the rest of the tokens.  \<open>parse_items\<close> reads
  the expressions up to the closing token and says whether a comma was among them.
\<close>

fun parse_expr :: "token list \<Rightarrow> token list \<Rightarrow> (expr \<times> token list) option"
  and parse_items ::
    "token list \<Rightarrow> token \<Rightarrow> token list \<Rightarrow> (expr list \<times> bool \<times> token list) option"
  and parse_pairs :: "token list \<Rightarrow> token list \<Rightarrow> ((expr \<times> expr) list \<times> token list) option"
  where
  "parse_expr [] ts = None"
| "parse_expr (f # fuel) ts =
     (case ts of
        STRING s # rest \<Rightarrow> Some (EStr s, rest)
      | NUMBER n # rest \<Rightarrow> Some (ENum n, rest)
      | NAME x # rest \<Rightarrow>
          (if x = lit ''None'' then Some (ENone, rest)
           else if x = lit ''True'' then Some (EBool True, rest)
           else if x = lit ''False'' then Some (EBool False, rest)
           else None)
      | LBRACK # rest \<Rightarrow>
          (case parse_items fuel RBRACK rest of
             Some (es, comma, rest') \<Rightarrow> Some (EList es, rest')
           | None \<Rightarrow> None)
      | LPAR # rest \<Rightarrow>
          (case parse_items fuel RPAR rest of
             Some (es, comma, rest') \<Rightarrow>
               (if length es = 1 \<and> \<not> comma then Some (hd es, rest') else Some (ETuple es, rest'))
           | None \<Rightarrow> None)
      | LBRACE # rest \<Rightarrow>
          (case parse_pairs fuel rest of
             Some (kvs, rest') \<Rightarrow> Some (EDict kvs, rest')
           | None \<Rightarrow> None)
      | _ \<Rightarrow> None)"
| "parse_items [] closer ts = None"
| "parse_items (f # fuel) closer ts =
     (case ts of
        [] \<Rightarrow> None
      | t # rest \<Rightarrow>
          if t = closer then Some ([], False, rest)
          else
            (case parse_expr fuel ts of
               None \<Rightarrow> None
             | Some (e, []) \<Rightarrow> None
             | Some (e, t1 # rest1) \<Rightarrow>
                 if t1 = closer then Some ([e], False, rest1)
                 else if t1 = COMMA then
                   (case parse_items fuel closer rest1 of
                      Some (es, comma, rest2) \<Rightarrow> Some (e # es, True, rest2)
                    | None \<Rightarrow> None)
                 else None))"
| "parse_pairs [] ts = None"
| "parse_pairs (f # fuel) ts =
     (case ts of
        [] \<Rightarrow> None
      | RBRACE # rest \<Rightarrow> Some ([], rest)
      | _ \<Rightarrow>
          (case parse_expr fuel ts of
             Some (k, COLON # rest1) \<Rightarrow>
               (case parse_expr fuel rest1 of
                  Some (v, RBRACE # rest2) \<Rightarrow> Some ([(k, v)], rest2)
                | Some (v, COMMA # rest2) \<Rightarrow>
                    (case parse_pairs fuel rest2 of
                       Some (kvs, rest3) \<Rightarrow> Some ((k, v) # kvs, rest3)
                     | None \<Rightarrow> None)
                | _ \<Rightarrow> None)
           | _ \<Rightarrow> None))"

text \<open>
  The whole text is an expression list: the tokens are read as if a closing parenthesis
  followed them, and nothing may be left.
\<close>

definition parse_text :: "token list \<Rightarrow> expr option" where
  "parse_text ts =
     (case parse_items (RPAR # RPAR # ts @ ts) RPAR (ts @ [RPAR]) of
        Some (es, comma, []) \<Rightarrow>
          (if es = [] then None
           else if length es = 1 \<and> \<not> comma then Some (hd es)
           else Some (ETuple es))
      | _ \<Rightarrow> None)"

text \<open>
  The value of an expression.  A key of a dict must be hashable, and \<open>True\<close> and
  \<open>False\<close> are the keys \<open>1\<close> and \<open>0\<close>; an item with a key that is there replaces the
  value and keeps the place.
\<close>

fun hashable :: "pyval \<Rightarrow> bool" where
  "hashable (PyList xs) = False"
| "hashable (PyDict kvs) = False"
| "hashable (PyTuple xs) = list_all hashable xs"
| "hashable v = True"

fun key_norm :: "pyval \<Rightarrow> pyval" where
  "key_norm (PyBool b) = PyInt (if b then 1 else 0)"
| "key_norm (PyTuple xs) = PyTuple (map key_norm xs)"
| "key_norm v = v"

fun dict_set :: "(pyval \<times> pyval) list \<Rightarrow> pyval \<Rightarrow> pyval \<Rightarrow> (pyval \<times> pyval) list" where
  "dict_set [] k v = [(k, v)]"
| "dict_set ((k', v') # kvs) k v =
     (if key_norm k' = key_norm k then (k', v) # kvs else (k', v') # dict_set kvs k v)"

function eval_expr :: "expr \<Rightarrow> exn + pyval"
  and eval_exprs :: "expr list \<Rightarrow> exn + pyval list"
  and eval_pairs :: "(expr \<times> expr) list \<Rightarrow> (pyval \<times> pyval) list \<Rightarrow> exn + (pyval \<times> pyval) list"
  where
  "eval_expr ENone = Inr PyNone"
| "eval_expr (EBool b) = Inr (PyBool b)"
| "eval_expr (ENum n) = Inr (PyInt (int n))"
| "eval_expr (EStr s) = Inr (PyStr s)"
| "eval_expr (EList es) = bnd (eval_exprs es) (\<lambda>vs. Inr (PyList vs))"
| "eval_expr (ETuple es) = bnd (eval_exprs es) (\<lambda>vs. Inr (PyTuple vs))"
| "eval_expr (EDict kvs) = bnd (eval_pairs kvs []) (\<lambda>d. Inr (PyDict d))"
| "eval_exprs [] = Inr []"
| "eval_exprs (e # es) = bnd (eval_expr e) (\<lambda>v. bnd (eval_exprs es) (\<lambda>vs. Inr (v # vs)))"
| "eval_pairs [] d = Inr d"
| "eval_pairs ((k, v) # kvs) d =
     bnd (eval_expr k) (\<lambda>kv.
     bnd (eval_expr v) (\<lambda>vv.
       if hashable kv then eval_pairs kvs (dict_set d kv vv) else Inl TypeError))"
  by pat_completeness auto
termination
  by (relation "measure (case_sum size (case_sum (size_list size)
        (\<lambda>p. size_list (size_prod size size) (fst p))))") auto

definition py_eval :: "str \<Rightarrow> (exn + pyval) option" where
  "py_eval s =
     (case lex Start s of
        Invalid \<Rightarrow> Some (Inl SyntaxError)
      | Unmodelled \<Rightarrow> None
      | Tokens ts \<Rightarrow> map_option eval_expr (parse_text ts))"

text \<open>
  \<open>py_eval\<close> as an argument of \<open>load_anime_list\<close>; outside the fragment it answers
  \<open>OtherError\<close>, which stands for no result of the interpreter.
\<close>

definition eval_literal :: "str \<Rightarrow> exn + pyval" where
  "eval_literal s = (case py_eval s of Some res \<Rightarrow> res | None \<Rightarrow> Inl OtherError)"

section \<open>Invariants, traces and example pages\<close>

text \<open>
  The uniqueness invariants of a performer: no two characters with one url, and within
  a character no two anime with one url.
\<close>

definition unique_urls :: "Character list \<Rightarrow> bool" where
  "unique_urls cs \<longleftrightarrow>
     distinct (map Character.url cs)
     \<and> (\<forall>c \<in> set cs. distinct (map Anime.url (Character.anime c)))"

text \<open>
  Every value \<open>self.characters\<close> takes during \<open>Seiyuu(url)\<close>: the empty list alone when
  the rows of the page cannot be reached.
\<close>

definition Seiyuu_init_points ::
  "(get_call \<Rightarrow> exn + response) \<Rightarrow> (bytes \<Rightarrow> exn + node) \<Rightarrow> str \<Rightarrow> Character list list" where
  "Seiyuu_init_points net parser u =
     (case bnd (simple_get net u) (\<lambda>page. bnd (BeautifulSoup parser page) performer_rows) of
        Inl e \<Rightarrow> [[]]
      | Inr rows \<Rightarrow> load_points u [] rows)"

text \<open>A response of type HTML with the body \<open>b\<close>, and one of any type.\<close>

definition html_response :: "bytes \<Rightarrow> response" where
  "html_response b =
     \<lparr>resp_headers = [(lit ''content-type'', lit ''text/html; charset=UTF-8'')],
      resp_content = Inr b\<rparr>"

definition plain_response :: "str \<Rightarrow> bytes \<Rightarrow> response" where
  "plain_response content_type b =
     \<lparr>resp_headers = [(lit ''content-type'', content_type)], resp_content = Inr b\<rparr>"

text \<open>
  A row of the table of roles: a first cell, a cell with the link of the anime, and a
  cell with the link of the character and its role.  The tree of a performer page: a
  first table and the table of the rows.
\<close>

definition example_row :: "str \<Rightarrow> str \<Rightarrow> str \<Rightarrow> str \<Rightarrow> str \<Rightarrow> node" where
  "example_row a_name a_url c_name c_role c_url =
     Tag (lit ''tr'') []
       [Tag (lit ''td'') [] [],
        Tag (lit ''td'') [] [Tag (lit ''a'') [(lit ''href'', a_url)] [NavigableString a_name]],
        Tag (lit ''td'') []
          [Tag (lit ''a'') [(lit ''href'', c_url)] [NavigableString c_name],
           Tag (lit ''div'') [] [NavigableString c_role]]]"

definition example_performer_page :: "node list \<Rightarrow> node" where
  "example_performer_page rows =
     Tag (lit ''[document]'') []
       [Tag (lit ''table'') [] [], Tag (lit ''table'') [] rows]"

text \<open>Two rows with one character and two anime.\<close>

definition example_rows :: "node list" where
  "example_rows =
     [example_row (lit ''Show A'') (lit ''/anime/1'') (lit '' Hero '') (lit ''Main'')
        (lit ''/character/7''),
      example_row (lit ''Show B'') (lit ''/anime/2'') (lit ''Hero'') (lit ''Main'')
        (lit ''/character/7'')]"

text \<open>The tree of a page of results whose table has one row, with no link.\<close>

definition example_no_results :: node where
  "example_no_results =
     Tag (lit ''[document]'') []
       [Tag (lit ''html'') []
          [Tag (lit ''head'') [] [Tag (lit ''title'') [] [NavigableString search_title]],
           Tag (lit ''body'') []
             [Tag (lit ''table'') []
                [Tag (lit ''tr'') []
                   [Tag (lit ''td'') [] [NavigableString (lit ''No results'')]]]]]]"

text \<open>
  Pages of a catalog as the site writes them: each item of the data is an object with
  a title and a path, its quotes written \<open>&quot;\<close>, inside the attribute
  \<open>data-items\<close>.
\<close>

definition quot :: str where
  "quot = lit ''&quot;''"

definition example_item :: "str \<Rightarrow> str \<Rightarrow> str" where
  "example_item title path =
     lit ''{'' @ quot @ lit ''anime_title'' @ quot @ lit '':'' @ quot @ title @ quot @ lit '',''
     @ quot @ lit ''anime_url'' @ quot @ lit '':'' @ quot @ path @ quot @ lit ''}''"

definition example_catalog :: "str \<Rightarrow> str \<Rightarrow> bytes" where
  "example_catalog item1 item2 =
     lit ''data-items='' @ [34] @ lit ''['' @ item1 @ lit '','' @ item2 @ lit '']'' @ [34]"

text \<open>
  A page whose data hold the title \<open>null\<close> and the title of \<open>A\<close>, a backslash and
  \<open>B\<close>; the site writes a backslash doubled and a slash after a backslash.
\<close>

definition example_titles_page :: bytes where
  "example_titles_page =
     example_catalog (example_item (lit ''null'') ([92] @ lit ''/a''))
       (example_item (lit ''A'' @ [92, 92] @ lit ''B'') ([92] @ lit ''/b''))"

text \<open>A page whose data hold one entry twice.\<close>

definition example_repeated_page :: bytes where
  "example_repeated_page =
     example_catalog (example_item (lit ''A'') ([92] @ lit ''/a''))
       (example_item (lit ''A'') ([92] @ lit ''/a''))"

text \<open>
  A page without the marker, whose text from index 13 on happens to be the items of
  a list.
\<close>

definition example_unmarked_page :: bytes where
  "example_unmarked_page =
     lit ''<i id='' @ [34] @ lit ''li'' @ [34] @ lit ''>['' @ example_item (lit ''A'') ([92] @ lit ''/a'')
     @ lit '','' @ example_item (lit ''B'') ([92] @ lit ''/b'') @ lit '']''"

text \<open>A page without the marker and without a closing bracket.\<close>

definition example_error_page :: bytes where
  "example_error_page = lit ''<html>No such user?</html>''"

text \<open>The \<open>anime_url\<close> strings of the objects of \<open>self.anime_details\<close>.\<close>

definition anime_urls :: "pyval list \<Rightarrow> str list" where
  "anime_urls details =
     map (\<lambda>A. case getitem A (lit ''anime_url'') of Inr (PyStr u) \<Rightarrow> u | _ \<Rightarrow> []) details"

section \<open>Sequencing\<close>

lemma bnd_Inl [simp]: "bnd (Inl e) f = Inl e"
  by (simp add: bnd_def)

lemma bnd_Inr [simp]: "bnd (Inr x) f = f x"
  by (simp add: bnd_def)

lemma bnd_eq_Inr: "bnd m f = Inr y \<longleftrightarrow> (\<exists>x. m = Inr x \<and> f x = Inr y)"
  by (cases m) simp_all

section \<open>The intersection filter\<close>

lemma skip_character_Some:
  "skip_character (Some al) c \<longleftrightarrow> \<not> urls_intersect al c"
  by (auto simp: skip_character_def urls_intersect_def list_ex_iff)

lemma char_rows_filter:
  "char_rows (Some al) i cs =
     map row_of (filter (\<lambda>ic. urls_intersect al (snd ic)) (enumerate i cs))"
  by (induction cs arbitrary: i) (simp_all add: skip_character_Some row_of_def)

text \<open>
  C1.  With a catalog list loaded, the loop of \<open>load_char_list\<close> draws exactly the
  characters whose anime urls intersect the urls of the catalog list: the rows are those
  of the stable filter of the (indexed) character list, in the input order, and each row
  shows every element of the character's \<open>anime\<close>, matched or not.
\<close>

theorem load_char_list_intersection:
  "load_char_list (Some al) s =
     map row_of (filter (\<lambda>ic. urls_intersect al (snd ic)) (enumerate 0 (characters s)))"
  by (simp add: load_char_list_def char_rows_filter)

theorem load_char_list_intersection_witness:
  "load_char_list
     (Some \<lparr>username = lit ''u'', url = lit ''https://myanimelist.net/animelist/u'',
            anime = [\<lparr>Anime.name = PyStr (lit ''Show A''), url = lit ''A''\<rparr>],
            anime_details = [], is_valid = True\<rparr>)
     \<lparr>url = lit ''p'', characters =
        [\<lparr>seiyuu = lit ''p'', name = lit ''x'', role = lit ''Main'', url = lit ''x'',
           anime = [\<lparr>Anime.name = PyStr (lit ''Show A''), url = lit ''A''\<rparr>]\<rparr>,
         \<lparr>seiyuu = lit ''p'', name = lit ''y'', role = lit ''Main'', url = lit ''y'',
           anime = [\<lparr>Anime.name = PyStr (lit ''Show B''), url = lit ''B''\<rparr>]\<rparr>]\<rparr>
   = [\<lparr>grid_row = 0, c_name_text = lit ''x'', a_name_texts = [PyStr (lit ''Show A'')]\<rparr>]"
  unfolding load_char_list_intersection
  by (simp add: urls_intersect_def row_of_def lit_def)

section \<open>The fetcher\<close>

lemma is_good_html: "is_good_response (html_response b) = Inr True"
  by (simp add: is_good_response_def html_response_def lit_def lower_def lower_char_def py_find_def)

lemma simple_get_html: "simple_get (\<lambda>c. Inr (html_response b)) u = Inr (Some b)"
  by (simp add: simple_get_def is_good_html except_RequestException_def)
   (simp add: html_response_def)

lemma simple_get_fails: "simple_get (\<lambda>c. Inl RequestException) u = Inr None"
  by (simp add: simple_get_def except_RequestException_def)

text \<open>
  C3.  The call \<open>simple_get\<close> makes passes no \<open>headers=\<close> argument, so the request
  goes out with the library's own \<open>User-Agent\<close>, which is not the browser-like string;
  that string sits in the module-level \<open>headers\<close>, which no call reads.
\<close>

theorem simple_get_default_user_agent:
  "call_headers (simple_get_call u) = None
   \<and> map_of (sent_headers ver enc (simple_get_call u)) (lit ''User-Agent'')
       = Some (default_user_agent ver)
   \<and> default_user_agent ver \<noteq> custom_user_agent
   \<and> map_of (headers ver enc) (lit ''User-Agent'') = Some custom_user_agent"
  by (simp add: simple_get_call_def sent_headers_def default_headers_def headers_def
      default_user_agent_def custom_user_agent_def lit_def)

text \<open>
  C5.  On a response without a \<open>Content-Type\<close> field the transport succeeds and
  \<open>simple_get\<close> neither returns the content nor \<open>None\<close>: the \<open>KeyError\<close> of the
  subscript leaves it.  With the field present it returns the content when the lowered
  value contains \<open>html\<close> and \<open>None\<close> otherwise (JSON and XML alike), and a
  \<open>RequestException\<close> of the transport gives \<open>None\<close>.
\<close>

theorem simple_get_missing_content_type:
  "simple_get (\<lambda>c. Inr \<lparr>resp_headers = [], resp_content = Inr b\<rparr>) u = Inl KeyError
   \<and> simple_get (\<lambda>c. Inr (plain_response (lit ''text/html; charset=UTF-8'') b)) u = Inr (Some b)
   \<and> simple_get (\<lambda>c. Inr (plain_response (lit ''application/json'') b)) u = Inr None
   \<and> simple_get (\<lambda>c. Inr (plain_response (lit ''application/xml'') b)) u = Inr None
   \<and> simple_get (\<lambda>c. Inl RequestException) u = Inr None"
  by (simp add: simple_get_def is_good_response_def plain_response_def
      except_RequestException_def lower_def lower_char_def py_find_def lit_def)

section \<open>Linking the rows of a performer page\<close>

lemma add_anime_urls: "map Character.url (add_anime cs u a) = map Character.url cs"
  by (induction cs) simp_all

lemma add_anime_anime:
  "\<forall>c \<in> set cs. distinct (map Anime.url (Character.anime c)) \<Longrightarrow>
   \<forall>c \<in> set (add_anime cs u a). distinct (map Anime.url (Character.anime c))"
  by (induction cs) auto

lemma add_anime_unique: "unique_urls cs \<Longrightarrow> unique_urls (add_anime cs u a)"
  unfolding unique_urls_def using add_anime_urls [of cs u a] add_anime_anime [of cs u a]
  by simp

lemma link_row_points_unique:
  "unique_urls cs \<Longrightarrow> \<forall>p \<in> set (link_row_points self_url cs f). unique_urls p"
  by (cases f) (auto simp: link_row_points_def add_anime_unique, auto simp: unique_urls_def)

lemma link_row_last: "last (cs # link_row_points self_url cs f) = link_row self_url cs f"
  by (cases f) (simp add: link_row_points_def link_row_def)

lemma link_row_unique: "unique_urls cs \<Longrightarrow> unique_urls (link_row self_url cs f)"
  using link_row_points_unique [of cs self_url f] link_row_last [of cs self_url f]
  by (cases f) (auto simp: link_row_points_def split: if_splits)

lemma load_points_unique:
  "unique_urls cs \<Longrightarrow> \<forall>p \<in> set (load_points self_url cs rows). unique_urls p"
proof (induction rows arbitrary: cs)
  case Nil
  then show ?case by simp
next
  case (Cons row rows)
  show ?case
  proof (cases "row_fields row")
    case (Inl e)
    with Cons.prems show ?thesis by simp
  next
    case (Inr f)
    from Cons.prems have "unique_urls (link_row self_url cs f)"
      by (rule link_row_unique)
    then have "\<forall>p \<in> set (load_points self_url (link_row self_url cs f) rows). unique_urls p"
      by (rule Cons.IH)
    with Inr Cons.prems link_row_points_unique [of cs self_url f] show ?thesis
      by auto
  qed
qed

lemma load_points_ne: "load_points self_url cs rows \<noteq> []"
  by (cases rows) (auto split: sum.splits)

lemma load_points_last:
  "load_rows self_url cs rows = Inr cs' \<Longrightarrow> last (load_points self_url cs rows) = cs'"
proof (induction rows arbitrary: cs)
  case Nil
  then show ?case by simp
next
  case (Cons row rows)
  then show ?case
    by (cases "row_fields row") (simp_all add: load_points_ne)
qed

lemma add_anime_split:
  "Character.url c = u \<Longrightarrow> u \<notin> set (map Character.url pre) \<Longrightarrow>
   add_anime (pre @ c # post) u a =
     pre @ c\<lparr>Character.anime := Character.anime c @
              (if Anime.url a \<in> set (map Anime.url (Character.anime c)) then [] else [a])\<rparr> # post"
  by (induction pre) auto

lemma Seiyuu_init_rows:
  assumes "simple_get net u = Inr (Some page)" and "parser page = Inr soup"
    and "performer_rows soup = Inr rows"
  shows "Seiyuu_init net parser u =
           bnd (load_rows u [] rows) (\<lambda>cs. Inr \<lparr>url = u, characters = cs\<rparr>)"
    and "Seiyuu_init_points net parser u = load_points u [] rows"
  using assms
  by (simp_all add: Seiyuu_init_def load_seiyuu_def BeautifulSoup_def Seiyuu_init_points_def)

text \<open>
  C2.  The linking step of \<open>load_seiyuu\<close>: a row whose character url is new appends a
  character whose \<open>anime\<close> is the one anime of the row; a row whose character url is
  present appends its anime to the first character with that url, unless an anime with
  that url is there already, and changes nothing else.  A page whose rows are two rows
  with one character url and two different anime urls yields one character with both
  anime, in the order of the rows.
\<close>

theorem link_row_algorithm:
  "(c_url \<notin> set (map Character.url cs) \<longrightarrow>
      link_row self_url cs (a_name, a_url, c_name, c_role, c_url) =
        cs @ [\<lparr>seiyuu = self_url, name = c_name, role = c_role, url = c_url,
                anime = [\<lparr>Anime.name = PyStr a_name, url = a_url\<rparr>]\<rparr>])
   \<and> (Character.url c = c_url \<and> c_url \<notin> set (map Character.url pre) \<longrightarrow>
      link_row self_url (pre @ c # post) (a_name, a_url, c_name, c_role, c_url) =
        pre @ c\<lparr>Character.anime := Character.anime c @
                 (if a_url \<in> set (map Anime.url (Character.anime c)) then []
                  else [\<lparr>Anime.name = PyStr a_name, url = a_url\<rparr>])\<rparr> # post)
   \<and> (simple_get net u = Inr (Some page) \<and> parser page = Inr soup
        \<and> performer_rows soup = Inr [r1, r2]
        \<and> row_fields r1 = Inr (n1, u1, cn1, cr1, cu)
        \<and> row_fields r2 = Inr (n2, u2, cn2, cr2, cu) \<and> u1 \<noteq> u2 \<longrightarrow>
      Seiyuu_init net parser u =
        Inr \<lparr>url = u, characters =
          [\<lparr>seiyuu = u, name = cn1, role = cr1, url = cu,
            anime = [\<lparr>Anime.name = PyStr n1, url = u1\<rparr>, \<lparr>Anime.name = PyStr n2, url = u2\<rparr>]\<rparr>]\<rparr>)"
proof (intro conjI impI)
  assume "c_url \<notin> set (map Character.url cs)"
  then show "link_row self_url cs (a_name, a_url, c_name, c_role, c_url) =
        cs @ [\<lparr>seiyuu = self_url, name = c_name, role = c_role, url = c_url,
                anime = [\<lparr>Anime.name = PyStr a_name, url = a_url\<rparr>]\<rparr>]"
    by (simp add: link_row_def)
next
  assume h: "Character.url c = c_url \<and> c_url \<notin> set (map Character.url pre)"
  then have "\<not> c_url \<notin> set (map Character.url (pre @ c # post))" by auto
  then have "link_row self_url (pre @ c # post) (a_name, a_url, c_name, c_role, c_url) =
      add_anime (pre @ c # post) c_url \<lparr>Anime.name = PyStr a_name, url = a_url\<rparr>"
    unfolding link_row_def prod.case by (rule if_not_P)
  with h show "link_row self_url (pre @ c # post) (a_name, a_url, c_name, c_role, c_url) =
        pre @ c\<lparr>Character.anime := Character.anime c @
                 (if a_url \<in> set (map Anime.url (Character.anime c)) then []
                  else [\<lparr>Anime.name = PyStr a_name, url = a_url\<rparr>])\<rparr> # post"
    by (simp add: add_anime_split)
next
  assume h: "simple_get net u = Inr (Some page) \<and> parser page = Inr soup
        \<and> performer_rows soup = Inr [r1, r2]
        \<and> row_fields r1 = Inr (n1, u1, cn1, cr1, cu)
        \<and> row_fields r2 = Inr (n2, u2, cn2, cr2, cu) \<and> u1 \<noteq> u2"
  then have "Seiyuu_init net parser u =
      bnd (load_rows u [] [r1, r2]) (\<lambda>cs. Inr \<lparr>url = u, characters = cs\<rparr>)"
    by (simp add: Seiyuu_init_rows)
  with h show "Seiyuu_init net parser u =
        Inr \<lparr>url = u, characters =
          [\<lparr>seiyuu = u, name = cn1, role = cr1, url = cu,
            anime = [\<lparr>Anime.name = PyStr n1, url = u1\<rparr>, \<lparr>Anime.name = PyStr n2, url = u2\<rparr>]\<rparr>]\<rparr>"
    by (auto simp: link_row_def)
qed

text \<open>
  C6.  When \<open>Seiyuu(url)\<close> returns, no two of its characters share a url and no
  character has two anime with one url; the same holds of every value
  \<open>self.characters\<close> took on the way, and the last of them is the result.
\<close>

theorem load_seiyuu_unique:
  assumes "Seiyuu_init net parser u = Inr s"
  shows "unique_urls (characters s)
         \<and> list_all unique_urls (Seiyuu_init_points net parser u)
         \<and> last (Seiyuu_init_points net parser u) = characters s"
proof -
  from assms obtain page soup rows cs where
    f: "simple_get net u = Inr page" "BeautifulSoup parser page = Inr soup"
       "performer_rows soup = Inr rows" "load_rows u [] rows = Inr cs"
       "s = \<lparr>url = u, characters = cs\<rparr>"
    by (auto simp: Seiyuu_init_def load_seiyuu_def bnd_eq_Inr)
  then have p: "Seiyuu_init_points net parser u = load_points u [] rows"
    by (simp add: Seiyuu_init_points_def)
  have "unique_urls []" by (simp add: unique_urls_def)
  then have a: "\<forall>p \<in> set (load_points u [] rows). unique_urls p"
    by (rule load_points_unique)
  have l: "last (load_points u [] rows) = cs"
    using f(4) by (rule load_points_last)
  have "cs \<in> set (load_points u [] rows)"
    using l load_points_ne [of u "[]" rows] last_in_set by metis
  with a l p f(5) show ?thesis
    by (simp add: list_all_iff)
qed

subsection \<open>An example page\<close>

lemmas tree_simps = lit_def find_all_def find_one_def cell_find_def subscript_def of_found_def
  string_strip_def href_def attrs_subscript_def

lemma row_fields_example:
  "row_fields (example_row a_name a_url c_name c_role c_url) =
     Inr (strip a_name, a_url, strip c_name, strip c_role, c_url)"
  by (simp add: row_fields_def example_row_def tree_simps)

lemma performer_rows_example:
  "performer_rows (example_performer_page example_rows) = Inr example_rows"
  by (simp add: performer_rows_def example_performer_page_def example_rows_def example_row_def
      tree_simps)

lemma strip_examples:
  "strip (lit ''Show A'') = lit ''Show A''" "strip (lit ''Show B'') = lit ''Show B''"
  "strip (lit '' Hero '') = lit ''Hero''" "strip (lit ''Hero'') = lit ''Hero''"
  "strip (lit ''Main'') = lit ''Main''"
  by (simp_all add: strip_def isspace_def lit_def)

lemma example_rows_fields:
  "row_fields (example_rows ! 0) =
     Inr (lit ''Show A'', lit ''/anime/1'', lit ''Hero'', lit ''Main'', lit ''/character/7'')"
  "row_fields (example_rows ! 1) =
     Inr (lit ''Show B'', lit ''/anime/2'', lit ''Hero'', lit ''Main'', lit ''/character/7'')"
  by (simp_all add: example_rows_def row_fields_example strip_examples)

lemma example_urls_differ: "lit ''/anime/1'' \<noteq> lit ''/anime/2''"
  by (simp add: lit_def)

theorem link_row_algorithm_witness:
  "link_row (lit ''s'') [] (lit ''Show A'', lit ''/anime/1'', lit ''Hero'', lit ''Main'', lit ''/character/7'')
     = [\<lparr>seiyuu = lit ''s'', name = lit ''Hero'', role = lit ''Main'', url = lit ''/character/7'',
          anime = [\<lparr>Anime.name = PyStr (lit ''Show A''), url = lit ''/anime/1''\<rparr>]\<rparr>]
   \<and> link_row (lit ''s'')
       [\<lparr>seiyuu = lit ''s'', name = lit ''Hero'', role = lit ''Main'', url = lit ''/character/7'',
          anime = [\<lparr>Anime.name = PyStr (lit ''Show B''), url = lit ''/anime/2''\<rparr>]\<rparr>]
       (lit ''Show A'', lit ''/anime/1'', lit ''Hero'', lit ''Main'', lit ''/character/7'')
     = [\<lparr>seiyuu = lit ''s'', name = lit ''Hero'', role = lit ''Main'', url = lit ''/character/7'',
          anime = [\<lparr>Anime.name = PyStr (lit ''Show B''), url = lit ''/anime/2''\<rparr>,
                   \<lparr>Anime.name = PyStr (lit ''Show A''), url = lit ''/anime/1''\<rparr>]\<rparr>]
   \<and> Seiyuu_init (\<lambda>c. Inr (html_response [])) (\<lambda>b. Inr (example_performer_page example_rows))
       (lit ''s'')
     = Inr \<lparr>url = lit ''s'', characters =
         [\<lparr>seiyuu = lit ''s'', name = lit ''Hero'', role = lit ''Main'', url = lit ''/character/7'',
            anime = [\<lparr>Anime.name = PyStr (lit ''Show A''), url = lit ''/anime/1''\<rparr>,
                     \<lparr>Anime.name = PyStr (lit ''Show B''), url = lit ''/anime/2''\<rparr>]\<rparr>]\<rparr>"
proof -
  let ?c = "\<lparr>seiyuu = lit ''s'', name = lit ''Hero'', role = lit ''Main'', url = lit ''/character/7'',
          anime = [\<lparr>Anime.name = PyStr (lit ''Show B''), url = lit ''/anime/2''\<rparr>]\<rparr>"
  note t = link_row_algorithm [where c_url = "lit ''/character/7''" and cs = "[]"
      and self_url = "lit ''s''" and a_name = "lit ''Show A''" and a_url = "lit ''/anime/1''"
      and c_name = "lit ''Hero''" and c_role = "lit ''Main''" and c = ?c and pre = "[]"
      and post = "[]" and net = "\<lambda>c. Inr (html_response [])" and u = "lit ''s''"
      and page = "[]" and parser = "\<lambda>b. Inr (example_performer_page example_rows)"
      and soup = "example_performer_page example_rows"
      and ?r1.0 = "example_rows ! 0" and ?r2.0 = "example_rows ! 1"
      and ?n1.0 = "lit ''Show A''" and ?u1.0 = "lit ''/anime/1''" and ?cn1.0 = "lit ''Hero''"
      and ?cr1.0 = "lit ''Main''" and cu = "lit ''/character/7''"
      and ?n2.0 = "lit ''Show B''" and ?u2.0 = "lit ''/anime/2''" and ?cn2.0 = "lit ''Hero''"
      and ?cr2.0 = "lit ''Main''"]
  have rows: "[example_rows ! 0, example_rows ! 1] = example_rows"
    by (simp add: example_rows_def)
  have a: "lit ''/character/7'' \<notin> set (map Character.url [])" by simp
  have b: "Character.url ?c = lit ''/character/7'' \<and> lit ''/character/7'' \<notin> set (map Character.url [])"
    by simp
  have c: "simple_get (\<lambda>c. Inr (html_response [])) (lit ''s'') = Inr (Some [])
      \<and> (\<lambda>b. Inr (example_performer_page example_rows)) [] = Inr (example_performer_page example_rows)
      \<and> performer_rows (example_performer_page example_rows) = Inr [example_rows ! 0, example_rows ! 1]
      \<and> row_fields (example_rows ! 0) =
          Inr (lit ''Show A'', lit ''/anime/1'', lit ''Hero'', lit ''Main'', lit ''/character/7'')
      \<and> row_fields (example_rows ! 1) =
          Inr (lit ''Show B'', lit ''/anime/2'', lit ''Hero'', lit ''Main'', lit ''/character/7'')
      \<and> lit ''/anime/1'' \<noteq> lit ''/anime/2''"
    using simple_get_html [of "[]"] performer_rows_example example_rows_fields example_urls_differ
    by (simp only: rows simp_thms)
  from t [THEN conjunct1, THEN mp, OF a] t [THEN conjunct2, THEN conjunct1, THEN mp, OF b]
    t [THEN conjunct2, THEN conjunct2, THEN mp, OF c]
  show ?thesis
    by (simp add: example_urls_differ)
qed

theorem load_seiyuu_unique_witness:
  "unique_urls
     [\<lparr>seiyuu = lit ''s'', name = lit ''Hero'', role = lit ''Main'', url = lit ''/character/7'',
        anime = [\<lparr>Anime.name = PyStr (lit ''Show A''), url = lit ''/anime/1''\<rparr>,
                 \<lparr>Anime.name = PyStr (lit ''Show B''), url = lit ''/anime/2''\<rparr>]\<rparr>]
   \<and> list_all unique_urls
       (Seiyuu_init_points (\<lambda>c. Inr (html_response []))
          (\<lambda>b. Inr (example_performer_page example_rows)) (lit ''s''))
   \<and> length (Seiyuu_init_points (\<lambda>c. Inr (html_response []))
          (\<lambda>b. Inr (example_performer_page example_rows)) (lit ''s'')) = 6"
proof -
  have i: "Seiyuu_init (\<lambda>c. Inr (html_response [])) (\<lambda>b. Inr (example_performer_page example_rows))
       (lit ''s'')
     = Inr \<lparr>url = lit ''s'', characters =
         [\<lparr>seiyuu = lit ''s'', name = lit ''Hero'', role = lit ''Main'', url = lit ''/character/7'',
            anime = [\<lparr>Anime.name = PyStr (lit ''Show A''), url = lit ''/anime/1''\<rparr>,
                     \<lparr>Anime.name = PyStr (lit ''Show B''), url = lit ''/anime/2''\<rparr>]\<rparr>]\<rparr>"
    using Seiyuu_init_rows(1) [OF simple_get_html [of "[]"] refl performer_rows_example, of "lit ''s''"]
      example_rows_fields example_urls_differ
    by (simp add: example_rows_def link_row_def)
  have n: "length (Seiyuu_init_points (\<lambda>c. Inr (html_response []))
          (\<lambda>b. Inr (example_performer_page example_rows)) (lit ''s'')) = 6"
    using Seiyuu_init_rows(2) [OF simple_get_html [of "[]"] refl performer_rows_example, of "lit ''s''"]
      example_rows_fields example_urls_differ
    by (simp add: example_rows_def link_row_def link_row_points_def)
  from load_seiyuu_unique [OF i] n show ?thesis
    by simp
qed

section \<open>The search\<close>

lemma quote_zz: "quote (lit ''zz'') = Inr (lit ''zz'')"
  by (simp add: quote_def lit_def encode_char_def quote_byte_def always_safe_def)

text \<open>
  C8.  When the fetched page carries the title of a page of results and its first table
  has a single row with no link in it, \<open>search_seiyuu\<close> returns the empty dict: a result,
  not an exception.
\<close>

theorem search_seiyuu_no_results:
  assumes "quote search = Inr q"
    and "simple_get net (search_url q) = Inr (Some page)"
    and "parser page = Inr soup"
    and "find_one (lit ''title'') soup = Some title"
    and "node_string title = Some search_title"
    and "find_one (lit ''table'') soup = Some t"
    and "find_all (lit ''tr'') t = [row]"
    and "find_one (lit ''a'') row = None"
  shows "search_seiyuu net parser search = Inr []"
  using assms by (simp add: search_seiyuu_def BeautifulSoup_def of_found_def)

lemma ex_title: "find_one (lit ''title'') example_no_results = Some (Tag (lit ''title'') [] [NavigableString search_title])"
  by (simp add: example_no_results_def tree_simps)

lemma ex_table: "find_one (lit ''table'') example_no_results = Some (Tag (lit ''table'') []
                [Tag (lit ''tr'') [] [Tag (lit ''td'') [] [NavigableString (lit ''No results'')]]])"
  by (simp add: example_no_results_def tree_simps)

lemma ex_rows:
  "find_all (lit ''tr'') (Tag (lit ''table'') []
      [Tag (lit ''tr'') [] [Tag (lit ''td'') [] [NavigableString (lit ''No results'')]]]) =
     [Tag (lit ''tr'') [] [Tag (lit ''td'') [] [NavigableString (lit ''No results'')]]]"
  by (simp add: tree_simps)

theorem search_seiyuu_no_results_witness:
  "search_seiyuu (\<lambda>c. Inr (html_response [])) (\<lambda>b. Inr example_no_results) (lit ''zz'') = Inr []"
  by (rule search_seiyuu_no_results [OF quote_zz simple_get_html _ ex_title _ ex_table ex_rows])
    (simp_all add: tree_simps)

section \<open>A failed fetch\<close>

text \<open>
  C9.  When the fetch fails, that is \<open>simple_get\<close> returns \<open>None\<close>, \<open>load_seiyuu\<close> and
  \<open>search_seiyuu\<close> hand \<open>None\<close> to \<open>BeautifulSoup\<close> and end in its \<open>TypeError\<close>;
  \<open>load_anime_list\<close> returns, with the object as it was, so that \<open>AnimeList(username)\<close>
  has \<open>is_valid = False\<close> and no entries.
\<close>

theorem fetch_failure_outcomes:
  "(simple_get net (Seiyuu.url s) = Inr None \<longrightarrow> load_seiyuu net parser s = Inl TypeError)
   \<and> (quote search = Inr q \<and> simple_get net (search_url q) = Inr None \<longrightarrow>
        search_seiyuu net parser search = Inl TypeError)
   \<and> (simple_get net (AnimeList.url al) = Inr None \<longrightarrow> load_anime_list net ev al = Inr al)
   \<and> (simple_get net (lit ''https://myanimelist.net/animelist/''
     @ user) = Inr None \<longrightarrow>
        AnimeList_init net ev user =
          Inr \<lparr>username = user, url = lit ''https://myanimelist.net/animelist/'' @ user,
               anime = [], anime_details = [], is_valid = False\<rparr>)"
  by (simp add: load_seiyuu_def search_seiyuu_def load_anime_list_def AnimeList_init_def
      BeautifulSoup_def)

theorem fetch_failure_outcomes_witness:
  "load_seiyuu (\<lambda>c. Inl RequestException) (\<lambda>b. Inr (NavigableString []))
       \<lparr>url = lit ''p'', characters = []\<rparr> = Inl TypeError
   \<and> search_seiyuu (\<lambda>c. Inl RequestException) (\<lambda>b. Inr (NavigableString [])) (lit ''zz'')
       = Inl TypeError
   \<and> AnimeList_init (\<lambda>c. Inl RequestException) eval_literal (lit ''u'') =
       Inr \<lparr>username = lit ''u'', url = lit ''https://myanimelist.net/animelist/''
         @ lit ''u'',
            anime = [], anime_details = [], is_valid = False\<rparr>"
proof -
  note t = fetch_failure_outcomes [where net = "\<lambda>c. Inl RequestException"
      and parser = "\<lambda>b. Inr (NavigableString [])" and s = "\<lparr>url = lit ''p'', characters = []\<rparr>"
      and search = "lit ''zz''" and q = "lit ''zz''" and ev = eval_literal and user = "lit ''u''"]
  have a: "simple_get (\<lambda>c. Inl RequestException) (Seiyuu.url \<lparr>url = lit ''p'', characters = []\<rparr>)
      = Inr None"
    by (rule simple_get_fails)
  have b: "quote (lit ''zz'') = Inr (lit ''zz'')
      \<and> simple_get (\<lambda>c. Inl RequestException) (search_url (lit ''zz'')) = Inr None"
    using quote_zz simple_get_fails by simp
  have c: "simple_get (\<lambda>c. Inl RequestException) (lit ''https://myanimelist.net/animelist/''
    @ lit ''u'')
      = Inr None"
    by (rule simple_get_fails)
  from t [THEN conjunct1, THEN mp, OF a] t [THEN conjunct2, THEN conjunct1, THEN mp, OF b]
    t [THEN conjunct2, THEN conjunct2, THEN conjunct2, THEN mp, OF c]
  show ?thesis by simp
qed

section \<open>The catalog parse\<close>

lemma anime_of_url:
  "anime_of A = Inr x \<Longrightarrow>
   \<exists>u. getitem A (lit ''anime_url'') = Inr (PyStr u) \<and> Anime.url x = lit ''https://myanimelist.net''
     @ u"
  by (auto simp: anime_of_def bnd_eq_Inr elim!: str_add.elims)

lemma anime_list_of_urls:
  "anime_list_of details = Inr as \<Longrightarrow>
   map Anime.url as = map ((@) (lit ''https://myanimelist.net'')) (anime_urls details)"
proof (induction details arbitrary: as)
  case Nil
  then show ?case by (simp add: anime_urls_def)
next
  case (Cons A details)
  from Cons.prems obtain x xs where
    x: "anime_of A = Inr x" and xs: "anime_list_of details = Inr xs" and as: "as = x # xs"
    by (auto simp: bnd_eq_Inr)
  from x obtain u where "getitem A (lit ''anime_url'') = Inr (PyStr u)"
    and "Anime.url x = lit ''https://myanimelist.net'' @ u"
    using anime_of_url by blast
  with Cons.IH [OF xs] as show ?case
    by (simp add: anime_urls_def)
qed

lemma anime_list_of_length: "anime_list_of details = Inr as \<Longrightarrow> length as = length details"
  by (induction details arbitrary: as) (auto simp: bnd_eq_Inr)

lemma distinct_map_append: "distinct (map ((@) p) us) \<longleftrightarrow> distinct us"
  by (simp add: distinct_map inj_on_def)

text \<open>
  C7, as amended.  When \<open>load_anime_list\<close> accepts a fetched page, \<open>self.anime_details\<close>
  is the list of what \<open>eval\<close> returned on the text after the slice and the
  replacements, \<open>self.anime\<close> has one entry per element of \<open>self.anime_details\<close> in
  the same order, and the url of each entry is the site's origin followed by the
  \<open>anime_url\<close> of its element: the urls are pairwise distinct exactly when the
  \<open>anime_url\<close> strings of the elements of \<open>self.anime_details\<close> are.  The elements
  are those of the evaluated text, which the replacements can make differ from the
  objects the page writes; of the latter the statement says nothing.
\<close>

theorem load_anime_list_urls:
  assumes "simple_get net (AnimeList.url self) = Inr (Some b)"
    and "load_anime_list net ev self = Inr al"
  shows "(\<exists>m v. decode_utf8 b = Inr m \<and> ev (python_syntax (data_items m)) = Inr v
            \<and> py_list v = Inr (anime_details al))
         \<and> length (AnimeList.anime al) = length (anime_details al)
         \<and> map Anime.url (AnimeList.anime al)
             = map ((@) (lit ''https://myanimelist.net'')) (anime_urls (anime_details al))
         \<and> distinct (map Anime.url (AnimeList.anime al)) = distinct (anime_urls (anime_details al))"
proof -
  from assms obtain m v details as where
    f: "decode_utf8 b = Inr m" "ev (python_syntax (data_items m)) = Inr v"
       "py_list v = Inr details" "anime_list_of details = Inr as"
       "al = self\<lparr>anime_details := details, AnimeList.anime := as, is_valid := True\<rparr>"
    by (auto simp: load_anime_list_def bnd_eq_Inr)
  have u: "map Anime.url as = map ((@) (lit ''https://myanimelist.net'')) (anime_urls details)"
    using f(4) by (rule anime_list_of_urls)
  have "distinct (map Anime.url as) = distinct (anime_urls details)"
    unfolding u by (rule distinct_map_append)
  with f u anime_list_of_length [OF f(4)] show ?thesis
    by simp
qed

subsection \<open>Example pages, evaluated\<close>

lemmas page_defs = example_catalog_def example_item_def quot_def lit_def

lemmas lex_defs = punct_def digit_def name_start_def no_token_char_def cons_token_def

lemma decode_utf8_ascii: "list_all (\<lambda>b. b < 0x80) bs \<Longrightarrow> decode_utf8 bs = Inr bs"
  by (induction bs rule: decode_utf8.induct) simp_all

lemma data_items_eval:
  assumes "py_find m (lit ''data-items'') 0 = a" and "0 \<le> a + 14"
    and "py_find m (lit '']'') (nat (a + 14)) = b"
  shows "data_items m = py_slice m (a + 14) (b - 1)"
  using assms by (simp add: data_items_def Let_def)

lemma AnimeList_init_eval:
  assumes "decode_utf8 b = Inr m" and "eval_literal (python_syntax (data_items m)) = res"
  shows "AnimeList_init (\<lambda>c. Inr (html_response b)) eval_literal user =
           bnd res (\<lambda>v. bnd (py_list v) (\<lambda>details. bnd (anime_list_of details) (\<lambda>as.
             Inr \<lparr>username = user, url = lit ''https://myanimelist.net/animelist/''
               @ user,
                  anime = as, anime_details = details, is_valid = True\<rparr>)))"
  using assms by (simp add: AnimeList_init_def load_anime_list_def simple_get_html)

lemma error_page_decode: "decode_utf8 example_error_page = Inr example_error_page"
  by (rule decode_utf8_ascii) (simp add: example_error_page_def lit_def)

lemma error_page_marker: "py_find example_error_page (lit ''data-items'') 0 = - 1"
  by (simp add: example_error_page_def lit_def py_find_def)

lemma error_page_bracket: "py_find example_error_page (lit '']'') (nat (- 1 + 14)) = - 1"
  by (simp add: example_error_page_def lit_def py_find_def)

lemma error_page_items: "data_items example_error_page = lit '' user?</htm''"
  unfolding data_items_eval [OF error_page_marker _ error_page_bracket, simplified]
  by (simp add: example_error_page_def lit_def py_slice_def slice_index_def)

lemma error_page_syntax: "python_syntax (data_items example_error_page) = lit ''{ user?</htm}''"
  unfolding error_page_items by (simp add: python_syntax_def r_def lit_def upt_rec)

lemma error_page_eval:
  "eval_literal (python_syntax (data_items example_error_page)) = Inl SyntaxError"
  unfolding error_page_syntax by (simp add: eval_literal_def py_eval_def lit_def lex_defs)

lemma titles_page_decode: "decode_utf8 example_titles_page = Inr example_titles_page"
  by (rule decode_utf8_ascii) (simp add: example_titles_page_def page_defs)

lemma titles_page_marker: "py_find example_titles_page (lit ''data-items'') 0 = 0"
  by (simp add: example_titles_page_def page_defs py_find_def)

lemma titles_page_bracket: "py_find example_titles_page (lit '']'') (nat (0 + 14)) = 174"
  by (simp add: example_titles_page_def page_defs py_find_def)

lemma titles_page_items:
  "data_items example_titles_page =
     lit ''&quot;anime_title&quot;:&quot;null&quot;,&quot;anime_url&quot;:&quot;'' @ [92]
       @ lit ''/a&quot;},{&quot;anime_title&quot;:&quot;A'' @ [92, 92]
       @ lit ''B&quot;,&quot;anime_url&quot;:&quot;'' @ [92] @ lit ''/b&quot;''"
  unfolding data_items_eval [OF titles_page_marker _ titles_page_bracket, simplified]
  by (simp add: example_titles_page_def page_defs py_slice_def slice_index_def)

lemma titles_page_syntax:
  "python_syntax (data_items example_titles_page) =
     lit ''{'' @ [34] @ lit ''anime_title'' @ [34] @ lit '':'' @ [34] @ lit ''None'' @ [34]
       @ lit '','' @ [34] @ lit ''anime_url'' @ [34] @ lit '':'' @ [34] @ lit ''/a'' @ [34]
       @ lit ''},{'' @ [34] @ lit ''anime_title'' @ [34] @ lit '':'' @ [34] @ lit ''AB''
       @ [34] @ lit '','' @ [34] @ lit ''anime_url'' @ [34] @ lit '':'' @ [34] @ lit ''/b''
       @ [34] @ lit ''}''"
  unfolding titles_page_items by (simp add: python_syntax_def r_def lit_def upt_rec)

lemma titles_page_eval:
  "eval_literal (python_syntax (data_items example_titles_page)) =
     Inr (PyTuple
       [PyDict [(PyStr (lit ''anime_title''), PyStr (lit ''None'')),
               (PyStr (lit ''anime_url''), PyStr (lit ''/a''))],
        PyDict [(PyStr (lit ''anime_title''), PyStr (lit ''AB'')),
                (PyStr (lit ''anime_url''), PyStr (lit ''/b''))]])"
  unfolding titles_page_syntax
  by (simp add: eval_literal_def py_eval_def lit_def lex_defs parse_text_def)

lemma titles_page_loaded:
  "AnimeList_init (\<lambda>c. Inr (html_response example_titles_page)) eval_literal (lit ''u'') =
     Inr \<lparr>username = lit ''u'', url = lit ''https://myanimelist.net/animelist/u'',
       anime =
       [\<lparr>Anime.name = PyStr (lit ''None''), url = lit ''https://myanimelist.net/a''\<rparr>,
        \<lparr>Anime.name = PyStr (lit ''AB''), url = lit ''https://myanimelist.net/b''\<rparr>],
       anime_details =
       [PyDict [(PyStr (lit ''anime_title''), PyStr (lit ''None'')),
               (PyStr (lit ''anime_url''), PyStr (lit ''/a''))],
        PyDict [(PyStr (lit ''anime_title''), PyStr (lit ''AB'')),
                (PyStr (lit ''anime_url''), PyStr (lit ''/b''))]],
       is_valid = True\<rparr>"
  unfolding AnimeList_init_eval [OF titles_page_decode titles_page_eval]
  by (simp add: anime_of_def) (simp add: lit_def)

lemma repeated_page_decode: "decode_utf8 example_repeated_page = Inr example_repeated_page"
  by (rule decode_utf8_ascii) (simp add: example_repeated_page_def page_defs)

lemma repeated_page_marker: "py_find example_repeated_page (lit ''data-items'') 0 = 0"
  by (simp add: example_repeated_page_def page_defs py_find_def)

lemma repeated_page_bracket: "py_find example_repeated_page (lit '']'') (nat (0 + 14)) = 168"
  by (simp add: example_repeated_page_def page_defs py_find_def)

lemma repeated_page_items:
  "data_items example_repeated_page =
     lit ''&quot;anime_title&quot;:&quot;A&quot;,&quot;anime_url&quot;:&quot;'' @ [92]
       @ lit ''/a&quot;},{&quot;anime_title&quot;:&quot;A&quot;,&quot;anime_url&quot;:&quot;''
       @ [92] @ lit ''/a&quot;''"
  unfolding data_items_eval [OF repeated_page_marker _ repeated_page_bracket, simplified]
  by (simp add: example_repeated_page_def page_defs py_slice_def slice_index_def)

lemma repeated_page_syntax:
  "python_syntax (data_items example_repeated_page) =
     lit ''{'' @ [34] @ lit ''anime_title'' @ [34] @ lit '':'' @ [34] @ lit ''A'' @ [34]
       @ lit '','' @ [34] @ lit ''anime_url'' @ [34] @ lit '':'' @ [34] @ lit ''/a'' @ [34]
       @ lit ''},{'' @ [34] @ lit ''anime_title'' @ [34] @ lit '':'' @ [34] @ lit ''A''
       @ [34] @ lit '','' @ [34] @ lit ''anime_url'' @ [34] @ lit '':'' @ [34] @ lit ''/a''
       @ [34] @ lit ''}''"
  unfolding repeated_page_items by (simp add: python_syntax_def r_def lit_def upt_rec)

lemma repeated_page_eval:
  "eval_literal (python_syntax (data_items example_repeated_page)) =
     Inr (PyTuple
       [PyDict [(PyStr (lit ''anime_title''), PyStr (lit ''A'')),
               (PyStr (lit ''anime_url''), PyStr (lit ''/a''))],
        PyDict [(PyStr (lit ''anime_title''), PyStr (lit ''A'')),
                (PyStr (lit ''anime_url''), PyStr (lit ''/a''))]])"
  unfolding repeated_page_syntax
  by (simp add: eval_literal_def py_eval_def lit_def lex_defs parse_text_def)

lemma repeated_page_loaded:
  "AnimeList_init (\<lambda>c. Inr (html_response example_repeated_page)) eval_literal (lit ''u'') =
     Inr \<lparr>username = lit ''u'', url = lit ''https://myanimelist.net/animelist/u'',
       anime =
       [\<lparr>Anime.name = PyStr (lit ''A''), url = lit ''https://myanimelist.net/a''\<rparr>,
        \<lparr>Anime.name = PyStr (lit ''A''), url = lit ''https://myanimelist.net/a''\<rparr>],
       anime_details =
       [PyDict [(PyStr (lit ''anime_title''), PyStr (lit ''A'')),
               (PyStr (lit ''anime_url''), PyStr (lit ''/a''))],
        PyDict [(PyStr (lit ''anime_title''), PyStr (lit ''A'')),
                (PyStr (lit ''anime_url''), PyStr (lit ''/a''))]],
       is_valid = True\<rparr>"
  unfolding AnimeList_init_eval [OF repeated_page_decode repeated_page_eval]
  by (simp add: anime_of_def) (simp add: lit_def)

lemma unmarked_page_decode: "decode_utf8 example_unmarked_page = Inr example_unmarked_page"
  by (rule decode_utf8_ascii) (simp add: example_unmarked_page_def page_defs)

lemma unmarked_page_marker: "py_find example_unmarked_page (lit ''data-items'') 0 = - 1"
  by (simp add: example_unmarked_page_def page_defs py_find_def)

lemma unmarked_page_bracket: "py_find example_unmarked_page (lit '']'') (nat (- 1 + 14)) = 167"
  by (simp add: example_unmarked_page_def page_defs py_find_def)

lemma unmarked_page_items:
  "data_items example_unmarked_page =
     lit ''&quot;anime_title&quot;:&quot;A&quot;,&quot;anime_url&quot;:&quot;'' @ [92]
       @ lit ''/a&quot;},{&quot;anime_title&quot;:&quot;B&quot;,&quot;anime_url&quot;:&quot;''
       @ [92] @ lit ''/b&quot;''"
  unfolding data_items_eval [OF unmarked_page_marker _ unmarked_page_bracket, simplified]
  by (simp add: example_unmarked_page_def page_defs py_slice_def slice_index_def)

lemma unmarked_page_syntax:
  "python_syntax (data_items example_unmarked_page) =
     lit ''{'' @ [34] @ lit ''anime_title'' @ [34] @ lit '':'' @ [34] @ lit ''A'' @ [34]
       @ lit '','' @ [34] @ lit ''anime_url'' @ [34] @ lit '':'' @ [34] @ lit ''/a'' @ [34]
       @ lit ''},{'' @ [34] @ lit ''anime_title'' @ [34] @ lit '':'' @ [34] @ lit ''B''
       @ [34] @ lit '','' @ [34] @ lit ''anime_url'' @ [34] @ lit '':'' @ [34] @ lit ''/b''
       @ [34] @ lit ''}''"
  unfolding unmarked_page_items by (simp add: python_syntax_def r_def lit_def upt_rec)

lemma unmarked_page_eval:
  "eval_literal (python_syntax (data_items example_unmarked_page)) =
     Inr (PyTuple
       [PyDict [(PyStr (lit ''anime_title''), PyStr (lit ''A'')),
               (PyStr (lit ''anime_url''), PyStr (lit ''/a''))],
        PyDict [(PyStr (lit ''anime_title''), PyStr (lit ''B'')),
                (PyStr (lit ''anime_url''), PyStr (lit ''/b''))]])"
  unfolding unmarked_page_syntax
  by (simp add: eval_literal_def py_eval_def lit_def lex_defs parse_text_def)

lemma unmarked_page_loaded:
  "AnimeList_init (\<lambda>c. Inr (html_response example_unmarked_page)) eval_literal (lit ''u'') =
     Inr \<lparr>username = lit ''u'', url = lit ''https://myanimelist.net/animelist/u'',
       anime =
       [\<lparr>Anime.name = PyStr (lit ''A''), url = lit ''https://myanimelist.net/a''\<rparr>,
        \<lparr>Anime.name = PyStr (lit ''B''), url = lit ''https://myanimelist.net/b''\<rparr>],
       anime_details =
       [PyDict [(PyStr (lit ''anime_title''), PyStr (lit ''A'')),
               (PyStr (lit ''anime_url''), PyStr (lit ''/a''))],
        PyDict [(PyStr (lit ''anime_title''), PyStr (lit ''B'')),
                (PyStr (lit ''anime_url''), PyStr (lit ''/b''))]],
       is_valid = True\<rparr>"
  unfolding AnimeList_init_eval [OF unmarked_page_decode unmarked_page_eval]
  by (simp add: anime_of_def) (simp add: lit_def)

text \<open>
  C4.  Two fetched pages without the marker.  On the first, which has no closing bracket
  either, \<open>AnimeList(username)\<close> ends in the \<open>SyntaxError\<close> of \<open>eval\<close>: no list with
  \<open>is_valid = False\<close> comes back.  On the second the text from index 13 on evaluates,
  and the list comes back valid with two entries.
\<close>

theorem load_anime_list_unmarked_page:
  "py_find example_error_page (lit ''data-items'') 0 = - 1
   \<and> AnimeList_init (\<lambda>c. Inr (html_response example_error_page)) eval_literal (lit ''u'')
       = Inl SyntaxError
   \<and> py_find example_unmarked_page (lit ''data-items'') 0 = - 1
   \<and> AnimeList_init (\<lambda>c. Inr (html_response example_unmarked_page)) eval_literal (lit ''u'')
       = Inr \<lparr>username = lit ''u'', url = lit ''https://myanimelist.net/animelist/u'',
           anime =
             [\<lparr>Anime.name = PyStr (lit ''A''), url = lit ''https://myanimelist.net/a''\<rparr>,
              \<lparr>Anime.name = PyStr (lit ''B''), url = lit ''https://myanimelist.net/b''\<rparr>],
           anime_details =
             [PyDict [(PyStr (lit ''anime_title''), PyStr (lit ''A'')),
                      (PyStr (lit ''anime_url''), PyStr (lit ''/a''))],
              PyDict [(PyStr (lit ''anime_title''), PyStr (lit ''B'')),
                      (PyStr (lit ''anime_url''), PyStr (lit ''/b''))]],
           is_valid = True\<rparr>"
  using error_page_marker unmarked_page_marker unmarked_page_loaded
    AnimeList_init_eval [OF error_page_decode error_page_eval, of "lit ''u''"]
  by simp

text \<open>
  C7 as stated fails: a page whose data repeat an entry is accepted, and the two
  entries of the list have one url.
\<close>

theorem repeated_url_counterexample:
  "(case AnimeList_init (\<lambda>c. Inr (html_response example_repeated_page)) eval_literal (lit ''u'') of
      Inl e \<Rightarrow> False
    | Inr al \<Rightarrow> is_valid al \<and> \<not> distinct (map Anime.url (AnimeList.anime al)))"
  unfolding repeated_page_loaded by simp

theorem load_anime_list_urls_witness:
  "map Anime.url
     [\<lparr>Anime.name = PyStr (lit ''None''), url = lit ''https://myanimelist.net/a''\<rparr>,
      \<lparr>Anime.name = PyStr (lit ''AB''), url = lit ''https://myanimelist.net/b''\<rparr>]
   = map ((@) (lit ''https://myanimelist.net''))
       (anime_urls
          [PyDict [(PyStr (lit ''anime_title''), PyStr (lit ''None'')),
                   (PyStr (lit ''anime_url''), PyStr (lit ''/a''))],
           PyDict [(PyStr (lit ''anime_title''), PyStr (lit ''AB'')),
                   (PyStr (lit ''anime_url''), PyStr (lit ''/b''))]])
   \<and> distinct (map Anime.url
       [\<lparr>Anime.name = PyStr (lit ''None''), url = lit ''https://myanimelist.net/a''\<rparr>,
        \<lparr>Anime.name = PyStr (lit ''AB''), url = lit ''https://myanimelist.net/b''\<rparr>])
     = distinct (anime_urls
          [PyDict [(PyStr (lit ''anime_title''), PyStr (lit ''None'')),
                   (PyStr (lit ''anime_url''), PyStr (lit ''/a''))],
           PyDict [(PyStr (lit ''anime_title''), PyStr (lit ''AB'')),
                   (PyStr (lit ''anime_url''), PyStr (lit ''/b''))]])"
proof -
  note t = load_anime_list_urls
    [OF simple_get_html titles_page_loaded [unfolded AnimeList_init_def]]
  from t [THEN conjunct2, THEN conjunct2] show ?thesis
    unfolding AnimeList.select_convs .
qed

text \<open>
  C10.  The replacements run over the whole text of the data, the contents of its
  strings included: on the page whose data hold the title \<open>null\<close> and the title of
  \<open>A\<close>, a backslash and \<open>B\<close>, the entries of the list are named \<open>None\<close> and
  \<open>AB\<close>.
\<close>

theorem substitutions_alter_titles:
  "example_titles_page =
     example_catalog (example_item (lit ''null'') ([92] @ lit ''/a''))
       (example_item (lit ''A'' @ [92, 92] @ lit ''B'') ([92] @ lit ''/b''))
   \<and> (case AnimeList_init (\<lambda>c. Inr (html_response example_titles_page)) eval_literal (lit ''u'') of
        Inl e \<Rightarrow> False
      | Inr al \<Rightarrow>
          map Anime.name (AnimeList.anime al) = [PyStr (lit ''None''), PyStr (lit ''AB'')])
   \<and> PyStr (lit ''None'') \<noteq> PyStr (lit ''null'')
   \<and> PyStr (lit ''AB'') \<noteq> PyStr (lit ''A'' @ [92] @ lit ''B'')"
  unfolding titles_page_loaded by (simp add: example_titles_page_def) (simp add: lit_def)

end
